theory Spec2Isabelle
  imports Complex_Main "HOL-Library.Sublist"
begin

section \<open>The Python fragment the two servers use\<close>

text \<open>
  Both servers are FastAPI handlers over parsed JSON. A parsed JSON document is a Python
  value: \<open>None\<close>, a \<open>bool\<close>, an unbounded \<open>int\<close>, a \<open>float\<close>, a \<open>str\<close>,
  a \<open>list\<close> or a \<open>dict\<close> (kept as its items in insertion order, keys distinct).
  The type \<open>'f\<close> stands for Python's \<open>float\<close>: the servers add, divide and print floats,
  and what these operations return is fixed by the interpreter, not by the repository.
  They are collected in a record of operations (\<open>runtime\<close>) that every function below
  takes as its first argument; every theorem holds for any such record.

  What is outside the model: the framework's serialisation of the content a handler returns
  (the model's response is the status and content handed to \<open>JSONResponse\<close>), the
  \<open>csv\<close> module's quoting (the file is kept as its rows of fields), characters outside
  ASCII, and the interpreter's limit on the number of digits of an \<open>int\<close> it prints.
\<close>

datatype 'f json =
    JNull
  | JBool bool
  | JInt int
  | JFloat 'f
  | JStr string
  | JArr "'f json list"
  | JObj "(string \<times> 'f json) list"

text \<open>An exception: its class and \<open>str(e)\<close>.\<close>

datatype pyexn = PyExn string string

fun exn_str :: "pyexn \<Rightarrow> string" where
  "exn_str (PyExn c m) = m"

text \<open>
  Statements in sequence, the first exception ending them: \<open>Inl\<close> is a raised exception.
\<close>

definition then_do :: "'e + 'a \<Rightarrow> ('a \<Rightarrow> 'e + 'b) \<Rightarrow> 'e + 'b" where
  "then_do m f = (case m of Inl e \<Rightarrow> Inl e | Inr x \<Rightarrow> f x)"

datatype binop = Add | Sub | Mul | TrueDiv

record 'f runtime =
  flt_of_int :: "int \<Rightarrow> 'f option"
    \<comment> \<open>\<open>float(n)\<close>; \<open>None\<close> is OverflowError\<close>
  flt_add :: "'f \<Rightarrow> 'f \<Rightarrow> 'f"
  flt_sub :: "'f \<Rightarrow> 'f \<Rightarrow> 'f"
  flt_mul :: "'f \<Rightarrow> 'f \<Rightarrow> 'f"
  flt_div :: "'f \<Rightarrow> 'f \<Rightarrow> 'f"
    \<comment> \<open>float division, called with a non-zero divisor only\<close>
  int_truediv :: "int \<Rightarrow> int \<Rightarrow> 'f option"
    \<comment> \<open>\<open>m / n\<close> on two ints, \<open>n\<close> non-zero; \<open>None\<close> is OverflowError\<close>
  flt_is_zero :: "'f \<Rightarrow> bool"
    \<comment> \<open>\<open>x == 0\<close>\<close>
  flt_finite :: "'f \<Rightarrow> bool"
    \<comment> \<open>neither an infinity nor a NaN\<close>
  flt_repr :: "'f \<Rightarrow> string"
  flt_of_str :: "string \<Rightarrow> 'f option"
    \<comment> \<open>\<open>float(s)\<close>; \<open>None\<close> is ValueError\<close>
  repr_other :: "'f json \<Rightarrow> string"
    \<comment> \<open>\<open>repr\<close> of a str, and \<open>str\<close> of a list or dict\<close>
  binop_other :: "binop \<Rightarrow> 'f json \<Rightarrow> 'f json \<Rightarrow> pyexn + 'f json"
    \<comment> \<open>an operator applied to operands that are not both numbers\<close>

fun type_name :: "'f json \<Rightarrow> string" where
  "type_name JNull = ''NoneType''"
| "type_name (JBool b) = ''bool''"
| "type_name (JInt n) = ''int''"
| "type_name (JFloat x) = ''float''"
| "type_name (JStr s) = ''str''"
| "type_name (JArr xs) = ''list''"
| "type_name (JObj kvs) = ''dict''"

definition quoted :: "string \<Rightarrow> string" where
  "quoted s = CHR 0x27 # s @ [CHR 0x27]"

definition no_attribute :: "'f json \<Rightarrow> string \<Rightarrow> pyexn" where
  "no_attribute v attr =
     PyExn ''AttributeError'' (quoted (type_name v) @ '' object has no attribute '' @ quoted attr)"

text \<open>\<open>d.get(k, dflt)\<close>: only a dict has the method.\<close>

definition py_get :: "'f json \<Rightarrow> string \<Rightarrow> 'f json \<Rightarrow> pyexn + 'f json" where
  "py_get d k dflt =
     (case d of
        JObj kvs \<Rightarrow> Inr (case map_of kvs k of Some v \<Rightarrow> v | None \<Rightarrow> dflt)
      | _ \<Rightarrow> Inl (no_attribute d ''get''))"

subsection \<open>Printing and reading integers\<close>

definition digit_table :: "(char \<times> nat) list" where
  "digit_table =
     [(CHR ''0'', 0), (CHR ''1'', 1), (CHR ''2'', 2), (CHR ''3'', 3), (CHR ''4'', 4),
      (CHR ''5'', 5), (CHR ''6'', 6), (CHR ''7'', 7), (CHR ''8'', 8), (CHR ''9'', 9)]"

definition digit_char :: "nat \<Rightarrow> char" where
  "digit_char d = fst (digit_table ! (d mod 10))"

fun show_nat :: "nat \<Rightarrow> string" where
  "show_nat n = (if n < 10 then [digit_char n] else show_nat (n div 10) @ [digit_char (n mod 10)])"

declare show_nat.simps [simp del]

definition show_int :: "int \<Rightarrow> string" where
  "show_int i = (if i < 0 then CHR ''-'' # show_nat (nat (- i)) else show_nat (nat i))"

definition digit_val :: "char \<Rightarrow> nat option" where
  "digit_val c = map_of digit_table c"

text \<open>
  \<open>int(s)\<close> in base 10: surrounding whitespace (the space and the characters \<open>\t\<close>,
  \<open>\n\<close>, \<open>\v\<close>, \<open>\f\<close>, \<open>\r\<close>) is dropped, one sign is allowed, and the digits may be
  grouped by single underscores.
\<close>

definition is_space :: "char \<Rightarrow> bool" where
  "is_space c = (c \<in> set [CHR '' '', CHR 0x09, CHR 0x0A, CHR 0x0B, CHR 0x0C, CHR 0x0D])"

definition strip :: "string \<Rightarrow> string" where
  "strip s = rev (dropWhile is_space (rev (dropWhile is_space s)))"

fun digits_acc :: "nat \<Rightarrow> string \<Rightarrow> nat option" where
  "digits_acc acc [] = Some acc"
| "digits_acc acc [c] = (case digit_val c of Some d \<Rightarrow> Some (acc * 10 + d) | None \<Rightarrow> None)"
| "digits_acc acc (c # d # cs) =
     (if c = CHR ''_'' then
        (case digit_val d of Some v \<Rightarrow> digits_acc (acc * 10 + v) cs | None \<Rightarrow> None)
      else (case digit_val c of Some v \<Rightarrow> digits_acc (acc * 10 + v) (d # cs) | None \<Rightarrow> None))"

definition parse_nat :: "string \<Rightarrow> nat option" where
  "parse_nat s =
     (case s of
        [] \<Rightarrow> None
      | c # cs \<Rightarrow> (case digit_val c of Some d \<Rightarrow> digits_acc d cs | None \<Rightarrow> None))"

definition py_int :: "string \<Rightarrow> int option" where
  "py_int s =
     (case strip s of
        [] \<Rightarrow> None
      | c # cs \<Rightarrow>
          (if c = CHR ''-'' then map_option (\<lambda>n. - int n) (parse_nat cs)
           else if c = CHR ''+'' then map_option int (parse_nat cs)
           else map_option int (parse_nat (c # cs))))"

text \<open>The value of a digit string read from the left, and what counts as a digit.\<close>

definition digit_step :: "nat \<Rightarrow> char \<Rightarrow> nat" where
  "digit_step acc c = acc * 10 + (case digit_val c of Some d \<Rightarrow> d | None \<Rightarrow> 0)"

definition is_digit :: "char \<Rightarrow> bool" where
  "is_digit c = (digit_val c \<noteq> None)"

subsection \<open>\<open>str\<close>, truth, length and arithmetic\<close>

text \<open>\<open>str(v)\<close>, which is also what an f-string field \<open>{v}\<close> prints.\<close>

definition py_str :: "'f runtime \<Rightarrow> 'f json \<Rightarrow> string" where
  "py_str R v =
     (case v of
        JNull \<Rightarrow> ''None''
      | JBool b \<Rightarrow> (if b then ''True'' else ''False'')
      | JInt n \<Rightarrow> show_int n
      | JFloat x \<Rightarrow> flt_repr R x
      | JStr s \<Rightarrow> s
      | JArr xs \<Rightarrow> repr_other R v
      | JObj kvs \<Rightarrow> repr_other R v)"

text \<open>A number is an \<open>int\<close> or a \<open>float\<close>; in arithmetic a \<open>bool\<close> counts as the int 0 or 1.\<close>

definition is_number :: "'f json \<Rightarrow> bool" where
  "is_number v = (case v of JInt n \<Rightarrow> True | JFloat x \<Rightarrow> True | _ \<Rightarrow> False)"

datatype 'f pynum = PInt int | PFloat 'f

definition num_of :: "'f json \<Rightarrow> 'f pynum option" where
  "num_of v =
     (case v of
        JInt n \<Rightarrow> Some (PInt n)
      | JBool b \<Rightarrow> Some (PInt (if b then 1 else 0))
      | JFloat x \<Rightarrow> Some (PFloat x)
      | _ \<Rightarrow> None)"

definition int_too_large :: pyexn where
  "int_too_large = PyExn ''OverflowError'' ''int too large to convert to float''"

definition to_float :: "'f runtime \<Rightarrow> 'f pynum \<Rightarrow> pyexn + 'f" where
  "to_float R n =
     (case n of
        PFloat x \<Rightarrow> Inr x
      | PInt i \<Rightarrow> (case flt_of_int R i of Some x \<Rightarrow> Inr x | None \<Rightarrow> Inl int_too_large))"

definition float_op :: "'f runtime \<Rightarrow> binop \<Rightarrow> 'f \<Rightarrow> 'f \<Rightarrow> pyexn + 'f json" where
  "float_op R op x y =
     (case op of
        Add \<Rightarrow> Inr (JFloat (flt_add R x y))
      | Sub \<Rightarrow> Inr (JFloat (flt_sub R x y))
      | Mul \<Rightarrow> Inr (JFloat (flt_mul R x y))
      | TrueDiv \<Rightarrow>
          (if flt_is_zero R y then Inl (PyExn ''ZeroDivisionError'' ''float division by zero'')
           else Inr (JFloat (flt_div R x y))))"

definition int_op :: "'f runtime \<Rightarrow> binop \<Rightarrow> int \<Rightarrow> int \<Rightarrow> pyexn + 'f json" where
  "int_op R op m n =
     (case op of
        Add \<Rightarrow> Inr (JInt (m + n))
      | Sub \<Rightarrow> Inr (JInt (m - n))
      | Mul \<Rightarrow> Inr (JInt (m * n))
      | TrueDiv \<Rightarrow>
          (if n = 0 then Inl (PyExn ''ZeroDivisionError'' ''division by zero'')
           else (case int_truediv R m n of
                   Some q \<Rightarrow> Inr (JFloat q)
                 | None \<Rightarrow> Inl (PyExn ''OverflowError''
                                   ''integer division result too large for a float''))))"

definition num_op :: "'f runtime \<Rightarrow> binop \<Rightarrow> 'f pynum \<Rightarrow> 'f pynum \<Rightarrow> pyexn + 'f json" where
  "num_op R op p q =
     (case (p, q) of
        (PInt m, PInt n) \<Rightarrow> int_op R op m n
      | _ \<Rightarrow>
          (case to_float R p of
             Inl e \<Rightarrow> Inl e
           | Inr x \<Rightarrow> (case to_float R q of Inl e \<Rightarrow> Inl e | Inr y \<Rightarrow> float_op R op x y)))"

text \<open>\<open>a + b\<close>, \<open>a - b\<close>, \<open>a * b\<close> and \<open>a / b\<close>.\<close>

definition py_binop :: "'f runtime \<Rightarrow> binop \<Rightarrow> 'f json \<Rightarrow> 'f json \<Rightarrow> pyexn + 'f json" where
  "py_binop R op a b =
     (case (num_of a, num_of b) of
        (Some p, Some q) \<Rightarrow> num_op R op p q
      | _ \<Rightarrow> binop_other R op a b)"

text \<open>\<open>v == 0\<close>.\<close>

definition py_eq_zero :: "'f runtime \<Rightarrow> 'f json \<Rightarrow> bool" where
  "py_eq_zero R v =
     (case v of
        JInt n \<Rightarrow> n = 0
      | JBool b \<Rightarrow> \<not> b
      | JFloat x \<Rightarrow> flt_is_zero R x
      | _ \<Rightarrow> False)"

text \<open>The truth value of \<open>v\<close> in a condition.\<close>

definition py_truthy :: "'f runtime \<Rightarrow> 'f json \<Rightarrow> bool" where
  "py_truthy R v =
     (case v of
        JNull \<Rightarrow> False
      | JBool b \<Rightarrow> b
      | JInt n \<Rightarrow> n \<noteq> 0
      | JFloat x \<Rightarrow> \<not> flt_is_zero R x
      | JStr s \<Rightarrow> s \<noteq> []
      | JArr xs \<Rightarrow> xs \<noteq> []
      | JObj kvs \<Rightarrow> kvs \<noteq> [])"

definition py_len :: "'f json \<Rightarrow> pyexn + nat" where
  "py_len v =
     (case v of
        JStr s \<Rightarrow> Inr (length s)
      | JArr xs \<Rightarrow> Inr (length xs)
      | JObj kvs \<Rightarrow> Inr (length kvs)
      | _ \<Rightarrow> Inl (PyExn ''TypeError'' (''object of type '' @ quoted (type_name v) @ '' has no len()'')))"

text \<open>\<open>sep.join(parts)\<close>.\<close>

fun join :: "string \<Rightarrow> string list \<Rightarrow> string" where
  "join sep [] = []"
| "join sep [x] = x"
| "join sep (x # y # ys) = x @ sep @ join sep (y # ys)"

text \<open>\<open>xs[start:]\<close> for an int \<open>start\<close>: a negative start counts from the end.\<close>

definition slice_from :: "'a list \<Rightarrow> int \<Rightarrow> 'a list" where
  "slice_from xs start =
     (if start < 0 then drop (nat (int (length xs) + start)) xs else drop (nat start) xs)"

section \<open>The calculator server\<close>

subsection \<open>The CSV ledger\<close>

text \<open>
  What the server's functions see of the outside: the CSV file (absent, or its rows, the
  header first), whether opening it for reading or for writing fails (with the message of
  the \<open>OSError\<close>), and the log. The clock is an argument of the functions that read it.
\<close>

datatype level = INFO | ERROR

record world =
  csv_path :: string
  csv_rows :: "string list list option"
  rd_fault :: "string option"
  wr_fault :: "string option"
  logs :: "(level \<times> string) list"

definition log_msg :: "level \<Rightarrow> string \<Rightarrow> world \<Rightarrow> world" where
  "log_msg l m w = w\<lparr>logs := logs w @ [(l, m)]\<rparr>"

definition csv_header :: "string list" where
  "csv_header = [''id'', ''operation'', ''operand_a'', ''operand_b'', ''result'', ''timestamp'']"

definition init_csv :: "world \<Rightarrow> pyexn + world" where
  "init_csv w =
     (case csv_rows w of
        Some rows \<Rightarrow> Inr w
      | None \<Rightarrow>
          (case wr_fault w of
             Some m \<Rightarrow> Inl (PyExn ''OSError'' m)
           | None \<Rightarrow>
               Inr (log_msg INFO (''Created CSV file: '' @ csv_path w)
                      (w\<lparr>csv_rows := Some [csv_header]\<rparr>))))"

text \<open>The field the csv writer puts for a value: nothing for \<open>None\<close>, else its \<open>str\<close>.\<close>

definition csv_field :: "'f runtime \<Rightarrow> 'f json \<Rightarrow> string" where
  "csv_field R v = (case v of JNull \<Rightarrow> [] | _ \<Rightarrow> py_str R v)"

text \<open>
  The id of the next row, read from the rows of the file: the header is skipped
  (\<open>next(reader)\<close>), and the id is one more than the first field of the last row.
\<close>

definition next_id :: "'f runtime \<Rightarrow> string list list \<Rightarrow> pyexn + int" where
  "next_id R file =
     (case file of
        [] \<Rightarrow> Inl (PyExn ''StopIteration'' [])
      | header # rows \<Rightarrow>
          (if rows = [] then Inr 1
           else (case last rows of
                   [] \<Rightarrow> Inl (PyExn ''IndexError'' ''list index out of range'')
                 | f # fs \<Rightarrow>
                     (case py_int f of
                        Some n \<Rightarrow> Inr (n + 1)
                      | None \<Rightarrow>
                          Inl (PyExn ''ValueError''
                                 (''invalid literal for int() with base 10: ''
                                  @ repr_other R (JStr f)))))))"

text \<open>The body of the \<open>try\<close> of \<open>save_calculation\<close>; an exception leaves with the world as it is then.\<close>

definition save_calculation_try ::
  "'f runtime \<Rightarrow> string \<Rightarrow> string \<Rightarrow> 'f json \<Rightarrow> 'f json \<Rightarrow> 'f json \<Rightarrow> world \<Rightarrow> (pyexn \<times> world) + world" where
  "save_calculation_try R now operation a b result w =
     (case init_csv w of
        Inl e \<Rightarrow> Inl (e, w)
      | Inr w1 \<Rightarrow>
          (case (case csv_rows w1 of
                   None \<Rightarrow> Inr 1
                 | Some file \<Rightarrow>
                     (case rd_fault w1 of
                        Some m \<Rightarrow> Inl (PyExn ''OSError'' m)
                      | None \<Rightarrow> next_id R file)) of
             Inl e \<Rightarrow> Inl (e, w1)
           | Inr n \<Rightarrow>
               (case wr_fault w1 of
                  Some m \<Rightarrow> Inl (PyExn ''OSError'' m, w1)
                | None \<Rightarrow>
                    Inr (log_msg INFO
                           (''Saved: '' @ operation @ ''('' @ py_str R a @ '', '' @ py_str R b
                            @ '') = '' @ py_str R result)
                           (w1\<lparr>csv_rows :=
                                 Some ((case csv_rows w1 of None \<Rightarrow> [] | Some file \<Rightarrow> file)
                                       @ [[show_int n, operation, csv_field R a, csv_field R b,
                                           csv_field R result, now]])\<rparr>)))))"

definition save_calculation ::
  "'f runtime \<Rightarrow> string \<Rightarrow> string \<Rightarrow> 'f json \<Rightarrow> 'f json \<Rightarrow> 'f json \<Rightarrow> world \<Rightarrow> world" where
  "save_calculation R now operation a b result w =
     (case save_calculation_try R now operation a b result w of
        Inr w' \<Rightarrow> w'
      | Inl (e, w') \<Rightarrow> log_msg ERROR (''CSV error: '' @ exn_str e) w')"

text \<open>
  A row as \<open>csv.DictReader\<close> gives it: the fields under the names of the header, a later
  name winning over an equal earlier one, and \<open>None\<close> under the names a short row does not reach.
\<close>

definition dict_row :: "string list \<Rightarrow> string list \<Rightarrow> string \<Rightarrow> pyexn + string option" where
  "dict_row header row k =
     (if k \<in> set (drop (length row) header) then Inr None
      else (case map_of (rev (zip header row)) k of
              Some v \<Rightarrow> Inr (Some v)
            | None \<Rightarrow> Inl (PyExn ''KeyError'' (quoted k))))"

definition int_of_field :: "'f runtime \<Rightarrow> string option \<Rightarrow> pyexn + int" where
  "int_of_field R fld =
     (case fld of
        None \<Rightarrow> Inl (PyExn ''TypeError''
          (''int() argument must be a string, a bytes-like object or a real number, not ''
           @ quoted ''NoneType''))
      | Some s \<Rightarrow>
          (case py_int s of
             Some n \<Rightarrow> Inr n
           | None \<Rightarrow> Inl (PyExn ''ValueError''
               (''invalid literal for int() with base 10: '' @ repr_other R (JStr s)))))"

definition float_of_field :: "'f runtime \<Rightarrow> string option \<Rightarrow> pyexn + 'f" where
  "float_of_field R fld =
     (case fld of
        None \<Rightarrow> Inl (PyExn ''TypeError''
          (''float() argument must be a string or a real number, not '' @ quoted ''NoneType''))
      | Some s \<Rightarrow>
          (case flt_of_str R s of
             Some x \<Rightarrow> Inr x
           | None \<Rightarrow> Inl (PyExn ''ValueError''
               (''could not convert string to float: '' @ repr_other R (JStr s)))))"

record 'f entry =
  e_id :: int
  e_operation :: "string option"
  e_operand_a :: 'f
  e_operand_b :: 'f
  e_result :: 'f
  e_timestamp :: "string option"

definition read_entry :: "'f runtime \<Rightarrow> string list \<Rightarrow> string list \<Rightarrow> pyexn + 'f entry" where
  "read_entry R header row =
     then_do (dict_row header row ''id'') (\<lambda>fi.
     then_do (int_of_field R fi) (\<lambda>i.
     then_do (dict_row header row ''operation'') (\<lambda>operation.
     then_do (dict_row header row ''operand_a'') (\<lambda>fa.
     then_do (float_of_field R fa) (\<lambda>x.
     then_do (dict_row header row ''operand_b'') (\<lambda>fb.
     then_do (float_of_field R fb) (\<lambda>y.
     then_do (dict_row header row ''result'') (\<lambda>fr.
     then_do (float_of_field R fr) (\<lambda>r.
     then_do (dict_row header row ''timestamp'') (\<lambda>ts.
       Inr \<lparr>e_id = i, e_operation = operation, e_operand_a = x, e_operand_b = y,
            e_result = r, e_timestamp = ts\<rparr>))))))))))"

text \<open>The loop over the rows: the first row that cannot be read raises.\<close>

fun read_entries :: "'f runtime \<Rightarrow> string list \<Rightarrow> string list list \<Rightarrow> pyexn + 'f entry list" where
  "read_entries R header [] = Inr []"
| "read_entries R header (row # rows) =
     (case read_entry R header row of
        Inl e \<Rightarrow> Inl e
      | Inr h \<Rightarrow> (case read_entries R header rows of Inl e \<Rightarrow> Inl e | Inr hs \<Rightarrow> Inr (h # hs)))"

text \<open>The rows of a \<open>DictReader\<close>: the first row of the file names the fields, empty rows are skipped.\<close>

definition dict_rows :: "string list list \<Rightarrow> string list \<times> string list list" where
  "dict_rows file =
     (case file of [] \<Rightarrow> ([], []) | header # rows \<Rightarrow> (header, filter (\<lambda>r. r \<noteq> []) rows))"

text \<open>\<open>-limit\<close> as the start of the slice \<open>rows[-limit:]\<close>.\<close>

definition neg_limit :: "'f json \<Rightarrow> pyexn + int" where
  "neg_limit limit =
     (case limit of
        JInt n \<Rightarrow> Inr (- n)
      | JBool b \<Rightarrow> Inr (- (if b then 1 else 0))
      | JFloat x \<Rightarrow> Inl (PyExn ''TypeError''
          ''slice indices must be integers or None or have an __index__ method'')
      | _ \<Rightarrow> Inl (PyExn ''TypeError'' (''bad operand type for unary -: '' @ quoted (type_name limit))))"

definition get_calculation_history_try ::
  "'f runtime \<Rightarrow> 'f json \<Rightarrow> world \<Rightarrow> (pyexn \<times> world) + ('f entry list \<times> world)" where
  "get_calculation_history_try R limit w =
     (case init_csv w of
        Inl e \<Rightarrow> Inl (e, w)
      | Inr w1 \<Rightarrow>
          (case rd_fault w1 of
             Some m \<Rightarrow> Inl (PyExn ''OSError'' m, w1)
           | None \<Rightarrow>
               (case csv_rows w1 of
                  None \<Rightarrow> Inl (PyExn ''FileNotFoundError'' (csv_path w1), w1)
                | Some file \<Rightarrow>
                    (case neg_limit limit of
                       Inl e \<Rightarrow> Inl (e, w1)
                     | Inr start \<Rightarrow>
                         (case read_entries R (fst (dict_rows file))
                                 (rev (slice_from (snd (dict_rows file)) start)) of
                            Inl e \<Rightarrow> Inl (e, w1)
                          | Inr history \<Rightarrow> Inr (history, w1))))))"

definition get_calculation_history :: "'f runtime \<Rightarrow> 'f json \<Rightarrow> world \<Rightarrow> 'f entry list \<times> world" where
  "get_calculation_history R limit w =
     (case get_calculation_history_try R limit w of
        Inr res \<Rightarrow> res
      | Inl (e, w') \<Rightarrow> ([], log_msg ERROR (''CSV error: '' @ exn_str e) w'))"

subsection \<open>The tool registry\<close>

abbreviation number_prop :: "string \<Rightarrow> 'f json" where
  "number_prop d \<equiv> JObj [(''type'', JStr ''number''), (''description'', JStr d)]"

abbreviation operands_schema :: "string \<Rightarrow> string \<Rightarrow> 'f json" where
  "operands_schema da db \<equiv>
     JObj [(''type'', JStr ''object''),
           (''properties'', JObj [(''a'', number_prop da), (''b'', number_prop db)]),
           (''required'', JArr [JStr ''a'', JStr ''b''])]"

abbreviation tool :: "string \<Rightarrow> string \<Rightarrow> 'f json \<Rightarrow> 'f json" where
  "tool n d schema \<equiv> JObj [(''name'', JStr n), (''description'', JStr d), (''inputSchema'', schema)]"

definition tools :: "'f json" where
  "tools = JArr
     [tool ''plus'' ''Add two numbers together''
        (operands_schema ''The first number'' ''The second number''),
      tool ''sub'' ''Subtract second number from first number''
        (operands_schema ''The first number'' ''The second number''),
      tool ''mul'' ''Multiply two numbers''
        (operands_schema ''The first number'' ''The second number''),
      tool ''div'' ''Divide first number by second number''
        (operands_schema ''The dividend'' ''The divisor''),
      tool ''history'' ''Get calculation history from database''
        (JObj [(''type'', JStr ''object''),
               (''properties'', JObj [(''limit'',
                  number_prop ''Number of recent calculations to retrieve (default: 10)'')])])]"

subsection \<open>The \<open>/mcp\<close> dispatcher\<close>

text \<open>
  What a handler gives back: the status and content of its response, or an exception that
  no \<open>except\<close> of the handler caught (the framework then answers in its place).
\<close>

datatype 'f reply = Reply nat "'f json" | Unhandled pyexn

definition text_result :: "string \<Rightarrow> 'f json \<Rightarrow> 'f json" where
  "text_result t request_id =
     JObj [(''jsonrpc'', JStr ''2.0''),
           (''result'', JObj [(''content'', JArr [JObj [(''type'', JStr ''text''), (''text'', JStr t)]])]),
           (''id'', request_id)]"

definition error_body :: "int \<Rightarrow> string \<Rightarrow> 'f json \<Rightarrow> 'f json" where
  "error_body code msg request_id =
     JObj [(''jsonrpc'', JStr ''2.0''),
           (''error'', JObj [(''code'', JInt code), (''message'', JStr msg)]),
           (''id'', request_id)]"

definition str_opt :: "string option \<Rightarrow> string" where
  "str_opt s = (case s of None \<Rightarrow> ''None'' | Some t \<Rightarrow> t)"

definition history_line :: "'f runtime \<Rightarrow> 'f entry \<Rightarrow> string" where
  "history_line R h =
     show_int (e_id h) @ ''. '' @ str_opt (e_operation h) @ '': '' @ flt_repr R (e_operand_a h)
     @ '' and '' @ flt_repr R (e_operand_b h) @ '' = '' @ flt_repr R (e_result h)
     @ '' ('' @ str_opt (e_timestamp h) @ '')''"

definition history_text :: "'f runtime \<Rightarrow> 'f json \<Rightarrow> 'f entry list \<Rightarrow> string" where
  "history_text R limit history =
     (if history \<noteq> [] then
        ''Calculation History (last '' @ py_str R limit @ ''):\<newline>''
        @ join ''\<newline>'' (map (history_line R) history)
      else ''No calculation history found'')"

text \<open>The branches of \<open>tools/call\<close> once \<open>a\<close> and \<open>b\<close> are both there.\<close>

definition call_tool ::
  "'f runtime \<Rightarrow> string \<Rightarrow> 'f json \<Rightarrow> 'f json \<Rightarrow> 'f json \<Rightarrow> 'f json \<Rightarrow> 'f json \<Rightarrow> world
     \<Rightarrow> pyexn + ('f reply \<times> world)" where
  "call_tool R now tool_name arguments a b request_id w =
     (if tool_name = JStr ''plus'' then
        then_do (py_binop R Add a b) (\<lambda>result.
          Inr (Reply 200 (text_result (''Addition: '' @ py_str R a @ '' + '' @ py_str R b
                                       @ '' = '' @ py_str R result) request_id),
               save_calculation R now ''plus'' a b result w))
      else if tool_name = JStr ''sub'' then
        then_do (py_binop R Sub a b) (\<lambda>result.
          Inr (Reply 200 (text_result (''Subtraction: '' @ py_str R a @ '' - '' @ py_str R b
                                       @ '' = '' @ py_str R result) request_id),
               save_calculation R now ''sub'' a b result w))
      else if tool_name = JStr ''mul'' then
        then_do (py_binop R Mul a b) (\<lambda>result.
          Inr (Reply 200 (text_result (''Multiplication: '' @ py_str R a @ '' * '' @ py_str R b
                                       @ '' = '' @ py_str R result) request_id),
               save_calculation R now ''mul'' a b result w))
      else if tool_name = JStr ''div'' then
        (if py_eq_zero R b then
           Inr (Reply 400 (error_body (- 32603) ''Division by zero is not allowed'' request_id), w)
         else
           then_do (py_binop R TrueDiv a b) (\<lambda>result.
             Inr (Reply 200 (text_result (''Division: '' @ py_str R a @ '' / '' @ py_str R b
                                          @ '' = '' @ py_str R result) request_id),
                  save_calculation R now ''div'' a b result w)))
      else if tool_name = JStr ''history'' then
        then_do (py_get arguments ''limit'' (JInt 10)) (\<lambda>limit.
          (case get_calculation_history R limit w of
             (history, w') \<Rightarrow>
               Inr (Reply 200 (text_result (history_text R limit history) request_id), w')))
      else
        Inr (Reply 400 (error_body (- 32601) (''Unknown tool: '' @ py_str R tool_name) request_id), w))"

text \<open>The body of the \<open>try\<close> of \<open>handle_mcp\<close>, from the parsed request on.\<close>

definition handle_mcp_try ::
  "'f runtime \<Rightarrow> string \<Rightarrow> 'f json \<Rightarrow> world \<Rightarrow> pyexn + ('f reply \<times> world)" where
  "handle_mcp_try R now data w =
     then_do (py_get data ''method'' JNull) (\<lambda>method.
     then_do (py_get data ''params'' (JObj [])) (\<lambda>params.
     then_do (py_get data ''id'' JNull) (\<lambda>request_id.
       if method = JStr ''tools/list'' then
         Inr (Reply 200 (JObj [(''jsonrpc'', JStr ''2.0''),
                               (''result'', JObj [(''tools'', tools)]),
                               (''id'', request_id)]), w)
       else if method = JStr ''tools/call'' then
         then_do (py_get params ''name'' JNull) (\<lambda>tool_name.
         then_do (py_get params ''arguments'' (JObj [])) (\<lambda>arguments.
         then_do (py_get arguments ''a'' JNull) (\<lambda>a.
         then_do (py_get arguments ''b'' JNull) (\<lambda>b.
           if a = JNull \<or> b = JNull then
             Inr (Reply 400 (error_body (- 32602) ''Missing required parameters: a and b''
                               request_id), w)
           else call_tool R now tool_name arguments a b request_id w))))
       else
         Inr (Reply 400 (error_body (- 32601) (''Method not found: '' @ py_str R method)
                           request_id), w))))"

text \<open>
  \<open>POST /mcp\<close>. The request is what \<open>request.json()\<close> gives: the parsed body, or the
  exception it raises. The \<open>except\<close> reads the id again from \<open>data\<close>, which raises once
  more when the body is not an object.
\<close>

definition handle_mcp ::
  "'f runtime \<Rightarrow> string \<Rightarrow> pyexn + 'f json \<Rightarrow> world \<Rightarrow> 'f reply \<times> world" where
  "handle_mcp R now request w =
     (case request of
        Inl e \<Rightarrow>
          (Reply 500 (error_body (- 32603) (exn_str e) JNull),
           log_msg ERROR (''Error handling MCP request: '' @ exn_str e) w)
      | Inr data \<Rightarrow>
          (case handle_mcp_try R now data w of
             Inr res \<Rightarrow> res
           | Inl e \<Rightarrow>
               (case py_get data ''id'' JNull of
                  Inr request_id \<Rightarrow>
                    (Reply 500 (error_body (- 32603) (exn_str e) request_id),
                     log_msg ERROR (''Error handling MCP request: '' @ exn_str e) w)
                | Inl e' \<Rightarrow>
                    (Unhandled e',
                     log_msg ERROR (''Error handling MCP request: '' @ exn_str e) w))))"

subsection \<open>The direct endpoints\<close>








definition opt_json :: "string option \<Rightarrow> 'f json" where
  "opt_json s = (case s of None \<Rightarrow> JNull | Some t \<Rightarrow> JStr t)"

definition entry_json :: "'f entry \<Rightarrow> 'f json" where
  "entry_json h =
     JObj [(''id'', JInt (e_id h)), (''operation'', opt_json (e_operation h)),
           (''operand_a'', JFloat (e_operand_a h)), (''operand_b'', JFloat (e_operand_b h)),
           (''result'', JFloat (e_result h)), (''timestamp'', opt_json (e_timestamp h))]"

text \<open>\<open>GET /history?limit=N\<close>: the framework hands \<open>limit\<close> over as an int.\<close>

definition history_endpoint :: "'f runtime \<Rightarrow> int \<Rightarrow> world \<Rightarrow> 'f reply \<times> world" where
  "history_endpoint R limit w =
     (case get_calculation_history R (JInt limit) w of
        (history, w') \<Rightarrow>
          (Reply 200 (JObj [(''history'', JArr (map entry_json history)),
                            (''count'', JInt (int (length history)))]), w'))"

section \<open>The Jedox server\<close>

subsection \<open>The remote gateway\<close>

text \<open>
  The Jedox service is reached through \<open>requests\<close>. A call either raises (the transport
  fails, or \<open>raise_for_status\<close> rejects the status: wrong credentials, unknown database),
  or gives a response whose \<open>json()\<close> is a document or raises in turn. The address
  \<open>JEDOX_SERVER\<close> comes from the environment. Log output of this server is left out.
\<close>

record 'f gateway =
  jedox_server :: string
  http_get :: "string \<Rightarrow> pyexn + (pyexn + 'f json)"
  http_post :: "string \<Rightarrow> 'f json \<Rightarrow> pyexn + (pyexn + 'f json)"

text \<open>\<open>d[k]\<close> for a string key, \<open>v[0]\<close>, and the elements a \<open>for\<close> loop visits.\<close>

definition py_item :: "'f json \<Rightarrow> string \<Rightarrow> pyexn + 'f json" where
  "py_item d k =
     (case d of
        JObj kvs \<Rightarrow> (case map_of kvs k of Some v \<Rightarrow> Inr v | None \<Rightarrow> Inl (PyExn ''KeyError'' (quoted k)))
      | JStr s \<Rightarrow> Inl (PyExn ''TypeError'' ''string indices must be integers'')
      | JArr xs \<Rightarrow> Inl (PyExn ''TypeError'' ''list indices must be integers or slices, not str'')
      | _ \<Rightarrow> Inl (PyExn ''TypeError'' (quoted (type_name d) @ '' object is not subscriptable'')))"

definition py_first :: "'f json \<Rightarrow> pyexn + 'f json" where
  "py_first v =
     (case v of
        JArr xs \<Rightarrow> (case xs of [] \<Rightarrow> Inl (PyExn ''IndexError'' ''list index out of range'')
                             | x # rest \<Rightarrow> Inr x)
      | JStr s \<Rightarrow> (case s of [] \<Rightarrow> Inl (PyExn ''IndexError'' ''string index out of range'')
                            | c # rest \<Rightarrow> Inr (JStr [c]))
      | JObj kvs \<Rightarrow> Inl (PyExn ''KeyError'' ''0'')
      | _ \<Rightarrow> Inl (PyExn ''TypeError'' (quoted (type_name v) @ '' object is not subscriptable'')))"

definition py_iter :: "'f json \<Rightarrow> pyexn + 'f json list" where
  "py_iter v =
     (case v of
        JArr xs \<Rightarrow> Inr xs
      | JStr s \<Rightarrow> Inr (map (\<lambda>c. JStr [c]) s)
      | JObj kvs \<Rightarrow> Inr (map (\<lambda>kv. JStr (fst kv)) kvs)
      | _ \<Rightarrow> Inl (PyExn ''TypeError'' (quoted (type_name v) @ '' object is not iterable'')))"

subsection \<open>The helper functions\<close>

definition list_databases_try :: "'f gateway \<Rightarrow> pyexn + 'f json" where
  "list_databases_try G =
     then_do (http_get G (jedox_server G @ ''/api/databases'')) (\<lambda>response.
     then_do response (\<lambda>data.
     then_do (py_get data ''databases'' (JArr [])) (\<lambda>found.
     then_do (py_len found) (\<lambda>n.
       py_get data ''databases'' (JArr [])))))"

definition list_databases :: "'f gateway \<Rightarrow> 'f json" where
  "list_databases G = (case list_databases_try G of Inr dbs \<Rightarrow> dbs | Inl e \<Rightarrow> JArr [])"

definition list_cubes_try :: "'f runtime \<Rightarrow> 'f gateway \<Rightarrow> 'f json \<Rightarrow> pyexn + 'f json" where
  "list_cubes_try R G database =
     then_do (http_get G (jedox_server G @ ''/api/databases/'' @ py_str R database @ ''/cubes''))
       (\<lambda>response.
     then_do response (\<lambda>data.
     then_do (py_get data ''cubes'' (JArr [])) (\<lambda>found.
     then_do (py_len found) (\<lambda>n.
       py_get data ''cubes'' (JArr [])))))"

definition list_cubes :: "'f runtime \<Rightarrow> 'f gateway \<Rightarrow> 'f json \<Rightarrow> 'f json" where
  "list_cubes R G database =
     (case list_cubes_try R G database of Inr cubes \<Rightarrow> cubes | Inl e \<Rightarrow> JArr [])"

definition list_dimensions_try :: "'f runtime \<Rightarrow> 'f gateway \<Rightarrow> 'f json \<Rightarrow> pyexn + 'f json" where
  "list_dimensions_try R G database =
     then_do (http_get G (jedox_server G @ ''/api/databases/'' @ py_str R database @ ''/dimensions''))
       (\<lambda>response.
     then_do response (\<lambda>data.
     then_do (py_get data ''dimensions'' (JArr [])) (\<lambda>found.
     then_do (py_len found) (\<lambda>n.
       py_get data ''dimensions'' (JArr [])))))"

definition list_dimensions :: "'f runtime \<Rightarrow> 'f gateway \<Rightarrow> 'f json \<Rightarrow> 'f json" where
  "list_dimensions R G database =
     (case list_dimensions_try R G database of Inr dims \<Rightarrow> dims | Inl e \<Rightarrow> JArr [])"

definition cells_url :: "'f runtime \<Rightarrow> 'f gateway \<Rightarrow> 'f json \<Rightarrow> 'f json \<Rightarrow> string" where
  "cells_url R G database cube =
     jedox_server G @ ''/api/databases/'' @ py_str R database @ ''/cubes/'' @ py_str R cube @ ''/cells''"

definition read_jedox_cell_try ::
  "'f runtime \<Rightarrow> 'f gateway \<Rightarrow> 'f json \<Rightarrow> 'f json \<Rightarrow> 'f json \<Rightarrow> pyexn + 'f json" where
  "read_jedox_cell_try R G database cube coordinates =
     then_do (http_post G (cells_url R G database cube)
                (JObj [(''coordinates'', JArr [coordinates])])) (\<lambda>response.
     then_do response (\<lambda>data.
     then_do (py_get data ''cells'' JNull) (\<lambda>cells.
       if py_truthy R cells then
         then_do (py_item data ''cells'') (\<lambda>cells'.
         then_do (py_len cells') (\<lambda>n.
           if n > 0 then
             then_do (py_item data ''cells'') (\<lambda>cells''.
             then_do (py_first cells'') (\<lambda>cell.
               py_get cell ''value'' JNull))
           else Inr JNull))
       else Inr JNull)))"

definition read_jedox_cell ::
  "'f runtime \<Rightarrow> 'f gateway \<Rightarrow> 'f json \<Rightarrow> 'f json \<Rightarrow> 'f json \<Rightarrow> 'f json" where
  "read_jedox_cell R G database cube coordinates =
     (case read_jedox_cell_try R G database cube coordinates of
        Inr v \<Rightarrow> v
      | Inl e \<Rightarrow> JObj [(''error'', JStr (exn_str e))])"

definition write_jedox_cell ::
  "'f runtime \<Rightarrow> 'f gateway \<Rightarrow> 'f json \<Rightarrow> 'f json \<Rightarrow> 'f json \<Rightarrow> 'f json \<Rightarrow> 'f json" where
  "write_jedox_cell R G database cube coordinates val =
     (case http_post G (cells_url R G database cube @ ''/write'')
             (JObj [(''cells'', JArr [JObj [(''coordinates'', coordinates), (''value'', val)]])]) of
        Inr response \<Rightarrow>
          JObj [(''status'', JStr ''success''),
                (''message'', JStr (''Successfully wrote '' @ py_str R val @ '' to cell ''
                                    @ py_str R coordinates))]
      | Inl e \<Rightarrow> JObj [(''status'', JStr ''error''), (''error'', JStr (exn_str e))])"

definition read_jedox_range_try ::
  "'f runtime \<Rightarrow> 'f gateway \<Rightarrow> 'f json \<Rightarrow> 'f json \<Rightarrow> 'f json \<Rightarrow> pyexn + 'f json" where
  "read_jedox_range_try R G database cube coordinates_list =
     then_do (http_post G (cells_url R G database cube)
                (JObj [(''coordinates'', coordinates_list)])) (\<lambda>response.
     then_do response (\<lambda>data.
     then_do (py_get data ''cells'' (JArr [])) (\<lambda>cells.
     then_do (py_len cells) (\<lambda>n.
       Inr cells))))"

definition read_jedox_range ::
  "'f runtime \<Rightarrow> 'f gateway \<Rightarrow> 'f json \<Rightarrow> 'f json \<Rightarrow> 'f json \<Rightarrow> 'f json" where
  "read_jedox_range R G database cube coordinates_list =
     (case read_jedox_range_try R G database cube coordinates_list of
        Inr cells \<Rightarrow> cells
      | Inl e \<Rightarrow> JArr [])"

subsection \<open>The tool registry\<close>

abbreviation string_prop :: "string \<Rightarrow> 'f json" where
  "string_prop d \<equiv> JObj [(''type'', JStr ''string''), (''description'', JStr d)]"

abbreviation coordinates_prop :: "string \<Rightarrow> 'f json" where
  "coordinates_prop d \<equiv>
     JObj [(''type'', JStr ''array''), (''items'', JObj [(''type'', JStr ''string'')]),
           (''description'', JStr d)]"

definition write_cell_description :: string where
  "write_cell_description =
     ''Write a value to a Jedox Cube cell (''
     @ [CHR 0xE2, CHR 0x9A, CHR 0xA0, CHR 0xEF, CHR 0xB8, CHR 0x8F]
     @ '' This will modify the database)''"

abbreviation object_schema :: "(string \<times> 'f json) list \<Rightarrow> 'f json list \<Rightarrow> 'f json" where
  "object_schema props required \<equiv>
     JObj [(''type'', JStr ''object''), (''properties'', JObj props), (''required'', JArr required)]"

definition jedox_tools :: "'f json" where
  "jedox_tools = JArr
     [tool ''jedox_list_databases'' ''List all available Jedox databases'' (object_schema [] []),
      tool ''jedox_list_cubes'' ''List all cubes in a specific Jedox database''
        (object_schema [(''database'', string_prop ''Database name'')] [JStr ''database'']),
      tool ''jedox_list_dimensions'' ''List all dimensions in a Jedox database''
        (object_schema [(''database'', string_prop ''Database name'')] [JStr ''database'']),
      tool ''jedox_read_cell'' ''Read a single cell value from a Jedox Cube''
        (object_schema
           [(''database'', string_prop ''Database name''), (''cube'', string_prop ''Cube name''),
            (''coordinates'',
               coordinates_prop ''Cell coordinates, e.g., ['2024', 'Beijing', 'Revenue']'')]
           [JStr ''database'', JStr ''cube'', JStr ''coordinates'']),
      tool ''jedox_write_cell'' write_cell_description
        (object_schema
           [(''database'', string_prop ''Database name''), (''cube'', string_prop ''Cube name''),
            (''coordinates'', coordinates_prop ''Cell coordinates''),
            (''value'', number_prop ''Value to write'')]
           [JStr ''database'', JStr ''cube'', JStr ''coordinates'', JStr ''value'']),
      tool ''jedox_read_range'' ''Read multiple cells from a Jedox Cube''
        (object_schema
           [(''database'', JObj [(''type'', JStr ''string'')]),
            (''cube'', JObj [(''type'', JStr ''string'')]),
            (''coordinates_list'',
               JObj [(''type'', JStr ''array''),
                     (''items'', JObj [(''type'', JStr ''array''),
                                       (''items'', JObj [(''type'', JStr ''string'')])]),
                     (''description'', JStr ''List of coordinate arrays'')])]
           [JStr ''database'', JStr ''cube'', JStr ''coordinates_list''])]"

subsection \<open>The \<open>/mcp\<close> dispatcher\<close>

text \<open>The text a loop builds: one piece for each element, the first exception ending it.\<close>

fun lines_of :: "('f json \<Rightarrow> pyexn + string) \<Rightarrow> 'f json list \<Rightarrow> pyexn + string" where
  "lines_of line [] = Inr []"
| "lines_of line (x # xs) =
     then_do (line x) (\<lambda>l. then_do (lines_of line xs) (\<lambda>ls. Inr (l @ ls)))"

definition named_line :: "'f runtime \<Rightarrow> 'f json \<Rightarrow> pyexn + string" where
  "named_line R x =
     then_do (py_get x ''name'' JNull) (\<lambda>name.
     then_do (py_get x ''id'' JNull) (\<lambda>ident.
       Inr (''- '' @ py_str R name @ '' (ID: '' @ py_str R ident @ '')\<newline>'')))"

definition dimension_line :: "'f runtime \<Rightarrow> 'f json \<Rightarrow> pyexn + string" where
  "dimension_line R x =
     then_do (py_get x ''name'' JNull) (\<lambda>name. Inr (''- '' @ py_str R name @ ''\<newline>''))"

definition cell_line :: "'f runtime \<Rightarrow> 'f json \<Rightarrow> pyexn + string" where
  "cell_line R x =
     then_do (py_get x ''coordinates'' (JArr [])) (\<lambda>coords.
     then_do (py_get x ''value'' JNull) (\<lambda>val.
       Inr (''- '' @ py_str R coords @ '': '' @ py_str R val @ ''\<newline>'')))"

definition jedox_call_tool ::
  "'f runtime \<Rightarrow> 'f gateway \<Rightarrow> 'f json \<Rightarrow> 'f json \<Rightarrow> 'f json \<Rightarrow> pyexn + 'f reply" where
  "jedox_call_tool R G tool_name arguments request_id =
     (if tool_name = JStr ''jedox_list_databases'' then
        then_do (py_iter (list_databases G)) (\<lambda>databases.
        then_do (lines_of (named_line R) databases) (\<lambda>ls.
          Inr (Reply 200 (text_result (''Available Jedox Databases:\<newline>'' @ ls) request_id))))
      else if tool_name = JStr ''jedox_list_cubes'' then
        then_do (py_get arguments ''database'' JNull) (\<lambda>database.
        then_do (py_iter (list_cubes R G database)) (\<lambda>cubes.
        then_do (lines_of (named_line R) cubes) (\<lambda>ls.
          Inr (Reply 200 (text_result (''Cubes in database '' @ quoted (py_str R database)
                                       @ '':\<newline>'' @ ls) request_id)))))
      else if tool_name = JStr ''jedox_list_dimensions'' then
        then_do (py_get arguments ''database'' JNull) (\<lambda>database.
        then_do (py_iter (list_dimensions R G database)) (\<lambda>dimensions.
        then_do (lines_of (dimension_line R) dimensions) (\<lambda>ls.
          Inr (Reply 200 (text_result (''Dimensions in database '' @ quoted (py_str R database)
                                       @ '':\<newline>'' @ ls) request_id)))))
      else if tool_name = JStr ''jedox_read_cell'' then
        then_do (py_get arguments ''database'' JNull) (\<lambda>database.
        then_do (py_get arguments ''cube'' JNull) (\<lambda>cube.
        then_do (py_get arguments ''coordinates'' JNull) (\<lambda>coordinates.
          Inr (Reply 200 (text_result
                 (case read_jedox_cell R G database cube coordinates of
                    JObj kvs \<Rightarrow>
                      (case map_of kvs ''error'' of
                         Some err \<Rightarrow> ''Error: '' @ py_str R err
                       | None \<Rightarrow> ''Cell value at '' @ py_str R coordinates @ '':\<newline>''
                                 @ py_str R (JObj kvs))
                  | cell_value \<Rightarrow> ''Cell value at '' @ py_str R coordinates @ '':\<newline>''
                                  @ py_str R cell_value)
                 request_id)))))
      else if tool_name = JStr ''jedox_write_cell'' then
        then_do (py_get arguments ''database'' JNull) (\<lambda>database.
        then_do (py_get arguments ''cube'' JNull) (\<lambda>cube.
        then_do (py_get arguments ''coordinates'' JNull) (\<lambda>coordinates.
        then_do (py_get arguments ''value'' JNull) (\<lambda>val.
          (let result = write_jedox_cell R G database cube coordinates val in
           then_do (py_get result ''status'' JNull) (\<lambda>status.
             if status = JStr ''success'' then
               then_do (py_item result ''message'') (\<lambda>message.
                 Inr (Reply 200 (text_result (''Success: '' @ py_str R message) request_id)))
             else
               then_do (py_get result ''error'' JNull) (\<lambda>err.
                 Inr (Reply 200 (text_result (''Error: '' @ py_str R err) request_id)))))))))
      else if tool_name = JStr ''jedox_read_range'' then
        then_do (py_get arguments ''database'' JNull) (\<lambda>database.
        then_do (py_get arguments ''cube'' JNull) (\<lambda>cube.
        then_do (py_get arguments ''coordinates_list'' JNull) (\<lambda>coordinates_list.
          (let cells = read_jedox_range R G database cube coordinates_list in
           then_do (py_len cells) (\<lambda>n.
           then_do (py_iter cells) (\<lambda>elems.
           then_do (lines_of (cell_line R) elems) (\<lambda>ls.
             Inr (Reply 200 (text_result (''Read '' @ show_int (int n) @ '' cells:\<newline>'' @ ls)
                               request_id)))))))))
      else
        Inr (Reply 200 (error_body (- 32601) (''Tool '' @ quoted (py_str R tool_name) @ '' not found'')
                          request_id)))"

definition jedox_handle_mcp_try :: "'f runtime \<Rightarrow> 'f gateway \<Rightarrow> 'f json \<Rightarrow> pyexn + 'f reply" where
  "jedox_handle_mcp_try R G body =
     then_do (py_get body ''method'' JNull) (\<lambda>method.
     then_do (py_get body ''params'' (JObj [])) (\<lambda>params.
     then_do (py_get body ''id'' (JInt 1)) (\<lambda>request_id.
       if method = JStr ''tools/list'' then
         Inr (Reply 200 (JObj [(''jsonrpc'', JStr ''2.0''),
                               (''result'', JObj [(''tools'', jedox_tools)]),
                               (''id'', request_id)]))
       else if method = JStr ''tools/call'' then
         then_do (py_get params ''name'' JNull) (\<lambda>tool_name.
         then_do (py_get params ''arguments'' (JObj [])) (\<lambda>arguments.
           jedox_call_tool R G tool_name arguments request_id))
       else
         Inr (Reply 200 (error_body (- 32601) (''Method '' @ quoted (py_str R method) @ '' not found'')
                           request_id)))))"

text \<open>\<open>POST /mcp\<close> of the Jedox server: every response it builds has the default status.\<close>

definition jedox_handle_mcp :: "'f runtime \<Rightarrow> 'f gateway \<Rightarrow> pyexn + 'f json \<Rightarrow> 'f reply" where
  "jedox_handle_mcp R G request =
     (case request of
        Inl e \<Rightarrow> Reply 200 (error_body (- 32603) (exn_str e) (JInt 1))
      | Inr body \<Rightarrow>
          (case jedox_handle_mcp_try R G body of
             Inr res \<Rightarrow> res
           | Inl e \<Rightarrow> Reply 200 (error_body (- 32603) (exn_str e) (JInt 1))))"

section \<open>The notions the properties are stated with\<close>

subsection \<open>Requests and responses\<close>

text \<open>
  \<open>data\<close> is a \<open>tools/call\<close> request for the tool \<open>tool_name\<close> with the arguments
  \<open>arguments\<close>: an object whose method is \<open>tools/call\<close> and whose params (an object, or
  left out) hold the two, read as the dispatchers read them.
\<close>

definition tools_call :: "'f json \<Rightarrow> 'f json \<Rightarrow> 'f json \<Rightarrow> bool" where
  "tools_call data tool_name arguments =
     (py_get data ''method'' JNull = Inr (JStr ''tools/call'') \<and>
      (case py_get data ''params'' (JObj []) of
         Inl e \<Rightarrow> False
       | Inr params \<Rightarrow>
           py_get params ''name'' JNull = Inr tool_name \<and>
           py_get params ''arguments'' (JObj []) = Inr arguments))"

text \<open>The operands \<open>a\<close> and \<open>b\<close> of an arguments object (\<open>None\<close> when left out).\<close>

definition operands :: "'f json \<Rightarrow> 'f json \<Rightarrow> 'f json \<Rightarrow> bool" where
  "operands arguments a b =
     (py_get arguments ''a'' JNull = Inr a \<and> py_get arguments ''b'' JNull = Inr b)"

text \<open>A request as a client builds it.\<close>

definition mcp_request :: "'f json \<Rightarrow> string \<Rightarrow> string \<Rightarrow> (string \<times> 'f json) list \<Rightarrow> 'f json" where
  "mcp_request request_id method name args =
     JObj [(''jsonrpc'', JStr ''2.0''), (''method'', JStr method),
           (''params'', JObj [(''name'', JStr name), (''arguments'', JObj args)]),
           (''id'', request_id)]"

definition reply_status :: "'f reply \<Rightarrow> nat option" where
  "reply_status r = (case r of Reply s c \<Rightarrow> Some s | Unhandled e \<Rightarrow> None)"

definition member_of :: "'f json \<Rightarrow> string \<Rightarrow> 'f json option" where
  "member_of v k = (case v of JObj kvs \<Rightarrow> map_of kvs k | _ \<Rightarrow> None)"

text \<open>The code of the error object of an envelope, and whether an envelope is a success.\<close>

definition error_code :: "'f json \<Rightarrow> int option" where
  "error_code c =
     (case member_of c ''error'' of
        Some err \<Rightarrow> (case member_of err ''code'' of Some (JInt n) \<Rightarrow> Some n | _ \<Rightarrow> None)
      | None \<Rightarrow> None)"

definition is_success :: "'f json \<Rightarrow> bool" where
  "is_success c = (member_of c ''result'' \<noteq> None \<and> member_of c ''error'' = None)"

text \<open>The text of the content item of a success envelope.\<close>

definition reply_text :: "'f reply \<Rightarrow> string option" where
  "reply_text r =
     (case r of
        Reply s c \<Rightarrow>
          (case member_of c ''result'' of
             Some res \<Rightarrow>
               (case member_of res ''content'' of
                  Some (JArr [item]) \<Rightarrow>
                    (case member_of item ''text'' of Some (JStr t) \<Rightarrow> Some t | _ \<Rightarrow> None)
                | _ \<Rightarrow> None)
           | None \<Rightarrow> None)
      | Unhandled e \<Rightarrow> None)"

text \<open>The arithmetic tools: for a name, the operator, and the label and symbol of the response text.\<close>

definition arith_tool :: "string \<Rightarrow> (binop \<times> string \<times> string) option" where
  "arith_tool name =
     (if name = ''plus'' then Some (Add, ''Addition'', ''+'')
      else if name = ''sub'' then Some (Sub, ''Subtraction'', ''-'')
      else if name = ''mul'' then Some (Mul, ''Multiplication'', ''*'')
      else if name = ''div'' then Some (TrueDiv, ''Division'', ''/'')
      else None)"

definition registered :: "string list" where
  "registered = [''plus'', ''sub'', ''mul'', ''div'', ''history'']"






text \<open>
  What the interpreter prints and what a JSON response carries. \<open>str\<close> of an int raises
  beyond 4300 digits, and the framework refuses to render a float that is not finite. Both
  happen outside the functions modelled here; the properties of results name them as conditions.
\<close>

definition digit_limit :: int where
  "digit_limit = 10 ^ 4300"

definition printable :: "'f json \<Rightarrow> bool" where
  "printable v = (case v of JInt n \<Rightarrow> \<bar>n\<bar> < digit_limit | _ \<Rightarrow> True)"



subsection \<open>The ledger\<close>

text \<open>The entries of the ledger are the rows after the header; the id of a row is its first field.\<close>

definition entries :: "world \<Rightarrow> string list list" where
  "entries w = (case csv_rows w of None \<Rightarrow> [] | Some file \<Rightarrow> tl file)"

definition row_id :: "string list \<Rightarrow> int option" where
  "row_id row = (case row of [] \<Rightarrow> None | f # fs \<Rightarrow> py_int f)"

definition stored_ids :: "world \<Rightarrow> int list option" where
  "stored_ids w = those (map row_id (entries w))"

text \<open>
  A ledger as the server keeps it: the file is absent or starts with a header row, and the
  ids of its entries are positive and strictly increasing.
\<close>

definition ledger_ok :: "world \<Rightarrow> bool" where
  "ledger_ok w =
     (csv_rows w \<noteq> Some [] \<and>
      (case stored_ids w of
         None \<Rightarrow> False
       | Some ids \<Rightarrow> sorted_wrt (<) ids \<and> list_all (\<lambda>i. 0 < i) ids))"

text \<open>The id the specification gives the next entry: one more than the greatest id, or 1.\<close>

definition spec_next_id :: "int list \<Rightarrow> int" where
  "spec_next_id ids = (if ids = [] then 1 else Max (set ids) + 1)"

text \<open>The medium is available: the file can be opened for reading and for writing.\<close>

definition available :: "world \<Rightarrow> bool" where
  "available w = (rd_fault w = None \<and> wr_fault w = None)"

definition ledger_row ::
  "'f runtime \<Rightarrow> int \<Rightarrow> string \<Rightarrow> 'f json \<Rightarrow> 'f json \<Rightarrow> 'f json \<Rightarrow> string \<Rightarrow> string list" where
  "ledger_row R n operation a b result now =
     [show_int n, operation, csv_field R a, csv_field R b, csv_field R result, now]"

subsection \<open>A failing gateway\<close>

text \<open>Every call to the remote service raises \<open>e\<close>.\<close>

definition gateway_fails :: "'f gateway \<Rightarrow> pyexn \<Rightarrow> bool" where
  "gateway_fails G e = ((\<forall>url. http_get G url = Inl e) \<and> (\<forall>url payload. http_post G url payload = Inl e))"

definition jedox_tools_call :: "'f json \<Rightarrow> 'f json \<Rightarrow> 'f json \<Rightarrow> 'f json \<Rightarrow> bool" where
  "jedox_tools_call data tool_name arguments request_id =
     (tools_call data tool_name arguments \<and> py_get data ''id'' (JInt 1) = Inr request_id)"

text \<open>The argument \<open>k\<close> of an arguments object (\<open>None\<close> when left out).\<close>

definition argument :: "(string \<times> 'f json) list \<Rightarrow> string \<Rightarrow> 'f json" where
  "argument args k = (case map_of args k of Some v \<Rightarrow> v | None \<Rightarrow> JNull)"

subsection \<open>Statuses\<close>

text \<open>
  How the calculator's \<open>/mcp\<close> pairs statuses and envelopes: 200 with a success envelope,
  400 with an error -32601, -32602 or -32603, 500 with an error -32603. (An exception that
  leaves the handler has no envelope.)
\<close>

definition calculator_status :: "'f reply \<Rightarrow> bool" where
  "calculator_status r =
     (case r of
        Unhandled e \<Rightarrow> True
      | Reply s c \<Rightarrow>
          (s = 200 \<and> is_success c)
          \<or> (s = 400 \<and> error_code c \<in> set [Some (- 32601), Some (- 32602), Some (- 32603)])
          \<or> (s = 500 \<and> error_code c = Some (- 32603)))"

subsection \<open>Concrete runs\<close>

text \<open>
  A runtime to run the model on concrete requests: its floats are the rationals, computed
  exactly and printed as \<open>n.0\<close> when integral; it reads a float from an integer literal.
  As for a double, an int or a quotient of ints of magnitude \<open>2 ^ 1024\<close> or more is too
  large for a float.
\<close>

definition show_rat :: "rat \<Rightarrow> string" where
  "show_rat x =
     (case quotient_of x of
        (p, q) \<Rightarrow> (if q = 1 then show_int p @ ''.0'' else show_int p @ ''/'' @ show_int q))"

definition float_bound :: rat where
  "float_bound = 2 ^ 1024"

definition demo_float :: "rat \<Rightarrow> rat option" where
  "demo_float x = (if \<bar>x\<bar> < float_bound then Some x else None)"

definition demo_runtime :: "rat runtime" where
  "demo_runtime =
     \<lparr>flt_of_int = (\<lambda>n. demo_float (of_int n)),
      flt_add = (\<lambda>x y. x + y),
      flt_sub = (\<lambda>x y. x - y),
      flt_mul = (\<lambda>x y. x * y),
      flt_div = (\<lambda>x y. x / y),
      int_truediv = (\<lambda>m n. demo_float (of_int m / of_int n)),
      flt_is_zero = (\<lambda>x. x = 0),
      flt_finite = (\<lambda>x. True),
      flt_repr = show_rat,
      flt_of_str = (\<lambda>s. map_option of_int (py_int s)),
      repr_other = (\<lambda>v. ''...''),
      binop_other = (\<lambda>op a b. Inl (PyExn ''TypeError'' ''unsupported operand type(s)''))\<rparr>"

definition fresh_world :: world where
  "fresh_world =
     \<lparr>csv_path = ''calculation_history.csv'', csv_rows = None, rd_fault = None,
      wr_fault = None, logs = []\<rparr>"

definition two_entries :: world where
  "two_entries =
     fresh_world\<lparr>csv_rows := Some
        [csv_header,
         [''1'', ''plus'', ''1'', ''1'', ''2'', ''2024-01-01T10:00:00''],
         [''2'', ''mul'', ''2'', ''3'', ''6'', ''2024-01-01T10:00:01'']]\<rparr>"

definition read_only_world :: world where
  "read_only_world = two_entries\<lparr>wr_fault := Some ''[Errno 30] Read-only file system''\<rparr>"

definition down_gateway :: "rat gateway" where
  "down_gateway =
     \<lparr>jedox_server = ''https://your-jedox-server.com'',
      http_get = (\<lambda>url. Inl (PyExn ''ConnectionError'' ''connection refused'')),
      http_post = (\<lambda>url payload. Inl (PyExn ''ConnectionError'' ''connection refused''))\<rparr>"

text \<open>A \<open>tools/call\<close> request whose \<open>arguments\<close> is \<open>null\<close>.\<close>

definition null_arguments_request :: "rat json" where
  "null_arguments_request =
     JObj [(''jsonrpc'', JStr ''2.0''), (''method'', JStr ''tools/call''),
           (''params'', JObj [(''name'', JStr ''plus''), (''arguments'', JNull)]),
           (''id'', JInt 1)]"

section \<open>Properties\<close>

subsection \<open>A printed integer reads back\<close>

lemma digit_cases:
  assumes "d < (10::nat)"
  obtains "d = 0" | "d = 1" | "d = 2" | "d = 3" | "d = 4" | "d = 5" | "d = 6" | "d = 7"
    | "d = 8" | "d = 9"
proof -
  from assms have "d = 0 \<or> d = 1 \<or> d = 2 \<or> d = 3 \<or> d = 4 \<or> d = 5 \<or> d = 6 \<or> d = 7
      \<or> d = 8 \<or> d = 9"
    by arith
  with that show thesis by blast
qed

lemma digit_val_digit_char: "d < 10 \<Longrightarrow> digit_val (digit_char d) = Some d"
  by (erule digit_cases) (simp_all add: digit_val_def digit_char_def digit_table_def)

lemma is_digit_digit_char: "is_digit (digit_char d)"
proof -
  have "d mod 10 < 10" by simp
  then have "digit_val (digit_char (d mod 10)) = Some (d mod 10)"
    by (rule digit_val_digit_char)
  moreover have "digit_char (d mod 10) = digit_char d"
    by (simp add: digit_char_def)
  ultimately show ?thesis by (simp add: is_digit_def)
qed

lemma is_digit_plain:
  "is_digit c \<Longrightarrow> \<not> is_space c \<and> c \<noteq> CHR ''_'' \<and> c \<noteq> CHR ''-'' \<and> c \<noteq> CHR ''+''"
  by (auto simp: is_digit_def digit_val_def digit_table_def is_space_def split: if_splits)

lemma show_nat_digits: "list_all is_digit (show_nat n)"
proof (induction n rule: show_nat.induct)
  case (1 n)
  show ?case
  proof (cases "n < 10")
    case True
    then show ?thesis by (subst show_nat.simps) (simp add: is_digit_digit_char)
  next
    case False
    with 1 show ?thesis by (subst show_nat.simps) (simp add: is_digit_digit_char)
  qed
qed

lemma show_nat_nonempty: "show_nat n \<noteq> []"
  by (subst show_nat.simps) simp

lemma digits_acc_foldl:
  "list_all is_digit ds \<Longrightarrow> digits_acc acc ds = Some (foldl digit_step acc ds)"
proof (induction acc ds rule: digits_acc.induct)
  case (1 acc)
  show ?case by simp
next
  case (2 acc c)
  then show ?case by (auto simp: is_digit_def digit_step_def)
next
  case (3 acc c d cs)
  from "3.prems" have c: "is_digit c" and d: "is_digit d" and cs: "list_all is_digit cs"
    by simp_all
  from c have nu: "c \<noteq> CHR ''_''" by (simp add: is_digit_plain)
  from c obtain v where v: "digit_val c = Some v" by (auto simp: is_digit_def)
  from d cs have "list_all is_digit (d # cs)" by simp
  with "3.IH"(2) [OF nu v]
  have rec: "digits_acc (acc * 10 + v) (d # cs) = Some (foldl digit_step (acc * 10 + v) (d # cs))" .
  have step: "digit_step acc c = acc * 10 + v"
    by (simp add: digit_step_def v)
  have "digits_acc acc (c # d # cs) = digits_acc (acc * 10 + v) (d # cs)"
    using nu v by simp
  also have "\<dots> = Some (foldl digit_step (digit_step acc c) (d # cs))"
    by (simp only: rec step)
  finally show ?case by simp
qed

lemma parse_nat_foldl:
  assumes "list_all is_digit s" "s \<noteq> []"
  shows "parse_nat s = Some (foldl digit_step 0 s)"
proof -
  from assms obtain c cs where s: "s = c # cs" by (cases s) auto
  with assms have c: "is_digit c" and cs: "list_all is_digit cs" by simp_all
  from c obtain v where v: "digit_val c = Some v" by (auto simp: is_digit_def)
  show ?thesis
    by (simp add: s parse_nat_def v digits_acc_foldl [OF cs] digit_step_def)
qed

lemma foldl_show_nat: "foldl digit_step 0 (show_nat n) = n"
proof (induction n rule: show_nat.induct)
  case (1 n)
  show ?case
  proof (cases "n < 10")
    case True
    then show ?thesis
      by (subst show_nat.simps) (simp add: digit_step_def digit_val_digit_char)
  next
    case False
    with 1 have "foldl digit_step 0 (show_nat (n div 10)) = n div 10" by simp
    with False show ?thesis
      by (subst show_nat.simps) (simp add: digit_step_def digit_val_digit_char)
  qed
qed

lemma parse_nat_show_nat: "parse_nat (show_nat n) = Some n"
  by (simp add: parse_nat_foldl show_nat_digits show_nat_nonempty foldl_show_nat)

lemma strip_no_space: "list_all (\<lambda>c. \<not> is_space c) s \<Longrightarrow> strip s = s"
proof -
  assume a: "list_all (\<lambda>c. \<not> is_space c) s"
  then have "dropWhile is_space s = s"
    by (cases s) simp_all
  moreover from a have "dropWhile is_space (rev s) = rev s"
    by (cases "rev s") (auto simp: list_all_iff)
  ultimately show ?thesis by (simp add: strip_def)
qed

lemma show_nat_no_space: "list_all (\<lambda>c. \<not> is_space c) (show_nat n)"
  using show_nat_digits [of n] by (auto simp: list_all_iff is_digit_plain)

lemma py_int_show_int: "py_int (show_int i) = Some i"
proof (cases "i < 0")
  case True
  have ns: "list_all (\<lambda>c. \<not> is_space c) (CHR ''-'' # show_nat (nat (- i)))"
    using show_nat_no_space [of "nat (- i)"] by (simp add: is_space_def)
  from True show ?thesis
    by (simp add: show_int_def py_int_def strip_no_space [OF ns] parse_nat_show_nat)
next
  case False
  obtain c cs where s: "show_nat (nat i) = c # cs"
    using show_nat_nonempty [of "nat i"] by (cases "show_nat (nat i)") auto
  with show_nat_digits [of "nat i"] have "is_digit c" by simp
  then have c: "c \<noteq> CHR ''-''" "c \<noteq> CHR ''+''" by (simp_all add: is_digit_plain)
  have p: "parse_nat (c # cs) = Some (nat i)"
    using parse_nat_show_nat [of "nat i"] by (simp add: s)
  have st: "strip (c # cs) = c # cs"
    using strip_no_space [OF show_nat_no_space, of "nat i"] by (simp add: s)
  from False c show ?thesis
    by (simp add: show_int_def py_int_def s st p)
qed

subsection \<open>Reaching the tool branches\<close>

lemma then_do_Inr [simp]: "then_do (Inr x) f = f x"
  by (simp add: then_do_def)

lemma then_do_Inl [simp]: "then_do (Inl e) f = Inl e"
  by (simp add: then_do_def)

lemma tools_call_reads:
  assumes "tools_call data tool_name arguments"
  obtains params where
    "py_get data ''method'' JNull = Inr (JStr ''tools/call'')"
    "py_get data ''params'' (JObj []) = Inr params"
    "py_get params ''name'' JNull = Inr tool_name"
    "py_get params ''arguments'' (JObj []) = Inr arguments"
  using assms by (auto simp: tools_call_def split: sum.splits)

lemma handle_mcp_try_call:
  assumes call: "tools_call data tool_name arguments"
    and rid: "py_get data ''id'' JNull = Inr request_id"
    and ops: "operands arguments a b"
  shows "handle_mcp_try R now data w =
           (if a = JNull \<or> b = JNull then
              Inr (Reply 400 (error_body (- 32602) ''Missing required parameters: a and b''
                                request_id), w)
            else call_tool R now tool_name arguments a b request_id w)"
proof -
  from call obtain params where
      m: "py_get data ''method'' JNull = Inr (JStr ''tools/call'')"
    and p: "py_get data ''params'' (JObj []) = Inr params"
    and n: "py_get params ''name'' JNull = Inr tool_name"
    and a: "py_get params ''arguments'' (JObj []) = Inr arguments"
    by (rule tools_call_reads)
  from ops have oa: "py_get arguments ''a'' JNull = Inr a" and ob: "py_get arguments ''b'' JNull = Inr b"
    by (simp_all add: operands_def)
  show ?thesis
    unfolding handle_mcp_try_def by (simp add: m p n a rid oa ob)
qed

lemma handle_mcp_of_try:
  "handle_mcp_try R now data w = Inr res \<Longrightarrow> handle_mcp R now (Inr data) w = res"
  by (simp add: handle_mcp_def)

lemma reply_status_Reply: "reply_status (Reply s c) = Some s"
  by (simp add: reply_status_def)

lemma py_get_argument: "py_get (JObj args) k JNull = Inr (argument args k)"
  by (simp add: py_get_def argument_def)

lemma is_number_not_null: "is_number v \<Longrightarrow> v \<noteq> JNull"
  by (auto simp: is_number_def)

lemma arith_tool_cases:
  assumes "arith_tool name = Some (op, label, symbol)"
  obtains
      "name = ''plus''" "op = Add" "label = ''Addition''" "symbol = ''+''"
    | "name = ''sub''" "op = Sub" "label = ''Subtraction''" "symbol = ''-''"
    | "name = ''mul''" "op = Mul" "label = ''Multiplication''" "symbol = ''*''"
    | "name = ''div''" "op = TrueDiv" "label = ''Division''" "symbol = ''/''"
  using assms unfolding arith_tool_def by (simp split: if_splits)

lemma call_tool_arith:
  assumes "arith_tool name = Some (op, label, symbol)"
    and "op = TrueDiv \<longrightarrow> \<not> py_eq_zero R b"
    and "py_binop R op a b = Inr result"
  shows "call_tool R now (JStr name) arguments a b request_id w =
           Inr (Reply 200 (text_result (label @ '': '' @ py_str R a @ '' '' @ symbol @ '' ''
                                        @ py_str R b @ '' = '' @ py_str R result) request_id),
                save_calculation R now name a b result w)"
  using assms(1)
proof (cases rule: arith_tool_cases)
  case 1
  with assms(3) show ?thesis by (simp add: call_tool_def)
next
  case 2
  with assms(3) show ?thesis by (simp add: call_tool_def)
next
  case 3
  with assms(3) show ?thesis by (simp add: call_tool_def)
next
  case 4
  with assms(2,3) show ?thesis by (simp add: call_tool_def)
qed

lemma handle_mcp_arith:
  assumes call: "tools_call data (JStr name) arguments"
    and rid: "py_get data ''id'' JNull = Inr request_id"
    and ops: "operands arguments a b"
    and nums: "is_number a" "is_number b"
    and tool: "arith_tool name = Some (op, label, symbol)"
    and nz: "op = TrueDiv \<longrightarrow> \<not> py_eq_zero R b"
    and res: "py_binop R op a b = Inr result"
  shows "handle_mcp R now (Inr data) w =
           (Reply 200 (text_result (label @ '': '' @ py_str R a @ '' '' @ symbol @ '' ''
                                    @ py_str R b @ '' = '' @ py_str R result) request_id),
            save_calculation R now name a b result w)"
proof -
  from nums have "a \<noteq> JNull" "b \<noteq> JNull" by (simp_all add: is_number_not_null)
  then have "handle_mcp_try R now data w = call_tool R now (JStr name) arguments a b request_id w"
    by (simp add: handle_mcp_try_call [OF call rid ops])
  then have "handle_mcp_try R now data w =
      Inr (Reply 200 (text_result (label @ '': '' @ py_str R a @ '' '' @ symbol @ '' ''
                                    @ py_str R b @ '' = '' @ py_str R result) request_id),
            save_calculation R now name a b result w)"
    by (simp only: call_tool_arith [OF tool nz res])
  then show ?thesis
    by (rule handle_mcp_of_try)
qed


subsection \<open>C1: the arithmetic tools\<close>


lemma handle_mcp_of_try_raise:
  assumes "handle_mcp_try R now data w = Inl e" and "py_get data ''id'' JNull = Inr request_id"
  shows "handle_mcp R now (Inr data) w =
           (Reply 500 (error_body (- 32603) (exn_str e) request_id),
            log_msg ERROR (''Error handling MCP request: '' @ exn_str e) w)"
  using assms by (simp add: handle_mcp_def)

lemma call_tool_arith_raise:
  assumes "arith_tool name = Some (op, label, symbol)"
    and "op = TrueDiv \<longrightarrow> \<not> py_eq_zero R b"
    and "py_binop R op a b = Inl e"
  shows "call_tool R now (JStr name) arguments a b request_id w = Inl e"
  using assms(1)
proof (cases rule: arith_tool_cases)
  case 1
  with assms(3) show ?thesis by (simp add: call_tool_def)
next
  case 2
  with assms(3) show ?thesis by (simp add: call_tool_def)
next
  case 3
  with assms(3) show ?thesis by (simp add: call_tool_def)
next
  case 4
  with assms(2,3) show ?thesis by (simp add: call_tool_def)
qed

lemma handle_mcp_arith_raise:
  assumes call: "tools_call data (JStr name) arguments"
    and rid: "py_get data ''id'' JNull = Inr request_id"
    and ops: "operands arguments a b"
    and nums: "is_number a" "is_number b"
    and tool: "arith_tool name = Some (op, label, symbol)"
    and nz: "op = TrueDiv \<longrightarrow> \<not> py_eq_zero R b"
    and res: "py_binop R op a b = Inl e"
  shows "handle_mcp R now (Inr data) w =
           (Reply 500 (error_body (- 32603) (exn_str e) request_id),
            log_msg ERROR (''Error handling MCP request: '' @ exn_str e) w)"
proof -
  from nums have "a \<noteq> JNull" "b \<noteq> JNull" by (simp_all add: is_number_not_null)
  then have "handle_mcp_try R now data w = call_tool R now (JStr name) arguments a b request_id w"
    by (simp add: handle_mcp_try_call [OF call rid ops])
  then have "handle_mcp_try R now data w = Inl e"
    by (simp only: call_tool_arith_raise [OF tool nz res])
  then show ?thesis
    using rid by (rule handle_mcp_of_try_raise)
qed


lemma below_digit_limit: "\<bar>n\<bar> < 10 ^ k \<Longrightarrow> k \<le> 4300 \<Longrightarrow> \<bar>n\<bar> < digit_limit"
proof -
  assume a: "\<bar>n\<bar> < 10 ^ k" and k: "k \<le> 4300"
  from k have "(10::int) ^ k \<le> 10 ^ 4300"
    by (rule power_increasing) simp
  with a show ?thesis
    unfolding digit_limit_def by (rule less_le_trans)
qed

lemma printable_int: "\<bar>n\<bar> < 10 ^ k \<Longrightarrow> k \<le> 4300 \<Longrightarrow> printable (JInt n)"
  by (simp add: printable_def below_digit_limit)



lemma demo_division_overflow:
  "py_binop demo_runtime TrueDiv (JInt (10 ^ 400)) (JInt 3) =
     Inl (PyExn ''OverflowError'' ''integer division result too large for a float'')"
  by (simp add: py_binop_def num_of_def num_op_def int_op_def demo_runtime_def demo_float_def
      float_bound_def)



lemma mcp_request_call:
  "tools_call (mcp_request rid ''tools/call'' name args) (JStr name) (JObj args)"
  "py_get (mcp_request rid ''tools/call'' name args) ''id'' JNull = Inr rid"
  by (simp_all add: tools_call_def mcp_request_def py_get_def)




subsection \<open>C10: the operands are checked before the tool name\<close>

lemma py_eq_zero_not_null: "py_eq_zero R b \<Longrightarrow> b \<noteq> JNull"
  by (auto simp: py_eq_zero_def)

lemma handle_mcp_try_no_arguments:
  assumes call: "tools_call data tool_name arguments"
    and bad: "py_get arguments ''a'' JNull = Inl e"
  shows "handle_mcp_try R now data w = Inl e"
proof -
  from call obtain params where
      m: "py_get data ''method'' JNull = Inr (JStr ''tools/call'')"
    and p: "py_get data ''params'' (JObj []) = Inr params"
    and n: "py_get params ''name'' JNull = Inr tool_name"
    and a: "py_get params ''arguments'' (JObj []) = Inr arguments"
    by (rule tools_call_reads)
  from m obtain kvs where d: "data = JObj kvs"
    by (cases data) (simp_all add: py_get_def)
  have i: "py_get data ''id'' JNull = Inr (argument kvs ''id'')"
    unfolding d by (rule py_get_argument)
  show ?thesis
    unfolding handle_mcp_try_def by (simp add: m p n a i bad)
qed





subsection \<open>C4: division by zero\<close>



subsection \<open>C7: the history tool behind the operand check\<close>

text \<open>
  C7. The \<open>history\<close> tool declares no \<open>a\<close> and \<open>b\<close>, and the repository's own test
  calls it with \<open>{"limit": 5}\<close> and expects a result. The dispatcher answers that
  very request with the error -32602: the operand check stands before the branch of the tool.
\<close>

theorem history_call_without_operands_is_rejected:
  "handle_mcp R now (Inr (mcp_request (JInt 1) ''tools/call'' ''history'' [(''limit'', JInt 5)])) w
   = (Reply 400 (error_body (- 32602) ''Missing required parameters: a and b'' (JInt 1)), w)"
  by (simp add: handle_mcp_def handle_mcp_try_def mcp_request_def py_get_def)

subsection \<open>C5: unknown tools\<close>

lemma call_tool_unknown:
  assumes "tool_name \<notin> JStr ` set registered"
  shows "call_tool R now tool_name arguments a b request_id w =
           Inr (Reply 400 (error_body (- 32601) (''Unknown tool: '' @ py_str R tool_name) request_id), w)"
proof -
  from assms have "tool_name \<noteq> JStr ''plus''" "tool_name \<noteq> JStr ''sub''"
    "tool_name \<noteq> JStr ''mul''" "tool_name \<noteq> JStr ''div''" "tool_name \<noteq> JStr ''history''"
    by (auto simp: registered_def)
  then show ?thesis by (simp add: call_tool_def)
qed

text \<open>
  C5, as stated, fails: a \<open>tools/call\<close> that names an unknown tool and carries no operands
  is answered with the error -32602 of the operand check, whose message does not name the tool.
\<close>

theorem unknown_tool_without_operands_counterexample:
  "fst (handle_mcp demo_runtime ''2024-01-01T10:00:02''
          (Inr (mcp_request (JInt 1) ''tools/call'' ''unknown_tool'' [])) fresh_world)
     = Reply 400 (error_body (- 32602) ''Missing required parameters: a and b'' (JInt 1))
   \<and> error_code (error_body (- 32602) ''Missing required parameters: a and b'' (JInt 1) :: rat json)
     = Some (- 32602)"
  by (simp add: handle_mcp_def handle_mcp_try_def mcp_request_def py_get_def error_code_def
      error_body_def member_of_def)

text \<open>
  C5, amended. For every \<open>tools/call\<close> request that carries both \<open>a\<close> and \<open>b\<close> and whose
  name is none of the registered tools, the dispatcher answers 400 with the error -32601 and
  the message \<open>Unknown tool: <name>\<close>, and leaves the world as it was.
\<close>

theorem unknown_tool_with_operands:
  assumes "tools_call data tool_name arguments"
    and "py_get data ''id'' JNull = Inr request_id"
    and "operands arguments a b"
    and "a \<noteq> JNull" and "b \<noteq> JNull"
    and "tool_name \<notin> JStr ` set registered"
  shows "handle_mcp R now (Inr data) w =
           (Reply 400 (error_body (- 32601) (''Unknown tool: '' @ py_str R tool_name) request_id), w)
       \<and> error_code (error_body (- 32601) (''Unknown tool: '' @ py_str R tool_name) request_id)
           = Some (- 32601)
       \<and> (case tool_name of JStr name \<Rightarrow> py_str R tool_name = name | _ \<Rightarrow> True)"
proof (intro conjI)
  from assms(4,5)
  have "handle_mcp_try R now data w = call_tool R now tool_name arguments a b request_id w"
    by (simp add: handle_mcp_try_call [OF assms(1,2,3)])
  then have "handle_mcp_try R now data w =
      Inr (Reply 400 (error_body (- 32601) (''Unknown tool: '' @ py_str R tool_name) request_id), w)"
    by (simp only: call_tool_unknown [OF assms(6)])
  then show "handle_mcp R now (Inr data) w =
           (Reply 400 (error_body (- 32601) (''Unknown tool: '' @ py_str R tool_name) request_id), w)"
    by (rule handle_mcp_of_try)
  show "error_code (error_body (- 32601) (''Unknown tool: '' @ py_str R tool_name) request_id)
           = Some (- 32601)"
    by (simp add: error_code_def error_body_def member_of_def)
  show "case tool_name of JStr name \<Rightarrow> py_str R tool_name = name | _ \<Rightarrow> True"
    by (simp add: py_str_def split: json.splits)
qed

theorem unknown_tool_with_operands_witness:
  "handle_mcp demo_runtime ''2024-01-01T10:00:02''
     (Inr (mcp_request (JInt 1) ''tools/call'' ''unknown_tool'' [(''a'', JInt 1), (''b'', JInt 2)]))
     two_entries
   = (Reply 400 (error_body (- 32601) ''Unknown tool: unknown_tool'' (JInt 1)), two_entries)"
proof -
  let ?d = "mcp_request (JInt 1) ''tools/call'' ''unknown_tool'' [(''a'', JInt 1), (''b'', JInt 2)] :: rat json"
  let ?args = "JObj [(''a'', JInt 1), (''b'', JInt 2)] :: rat json"
  have c: "tools_call ?d (JStr ''unknown_tool'') ?args"
    by (simp add: tools_call_def mcp_request_def py_get_def)
  have i: "py_get ?d ''id'' JNull = Inr (JInt 1)"
    by (simp add: mcp_request_def py_get_def)
  have o: "operands ?args (JInt 1) (JInt 2)"
    by (simp add: operands_def py_get_def)
  have n: "(JInt 1 :: rat json) \<noteq> JNull" "(JInt 2 :: rat json) \<noteq> JNull"
    by simp_all
  have u: "(JStr ''unknown_tool'' :: rat json) \<notin> JStr ` set registered"
    by (simp add: registered_def image_iff)
  show ?thesis
    using unknown_tool_with_operands [OF c i o n u, of demo_runtime "''2024-01-01T10:00:02''" two_entries]
    by (simp add: py_str_def)
qed

subsection \<open>C6: a storage failure does not reach the caller\<close>

lemma save_calculation_unavailable:
  assumes "\<not> available w"
  shows "entries (save_calculation R now operation a b result w) = entries w
       \<and> (\<exists>msg. last (logs (save_calculation R now operation a b result w))
                   = (ERROR, ''CSV error: '' @ msg))"
proof (cases "csv_rows w")
  case None
  show ?thesis
  proof (cases "wr_fault w")
    case (Some m)
    with None show ?thesis
      by (simp add: save_calculation_def save_calculation_try_def init_csv_def log_msg_def
          entries_def)
  next
    case wn: None
    with assms obtain m where "rd_fault w = Some m"
      by (auto simp: available_def)
    with None wn show ?thesis
      by (simp add: save_calculation_def save_calculation_try_def init_csv_def log_msg_def
          entries_def)
  qed
next
  case (Some stored)
  show ?thesis
  proof (cases "rd_fault w")
    case rs: (Some m)
    with Some show ?thesis
      by (simp add: save_calculation_def save_calculation_try_def init_csv_def log_msg_def
          entries_def)
  next
    case None
    with assms obtain m where "wr_fault w = Some m"
      by (auto simp: available_def)
    with Some None show ?thesis
      by (cases "next_id R stored")
         (simp_all add: save_calculation_def save_calculation_try_def init_csv_def log_msg_def
          entries_def)
  qed
qed



subsection \<open>C3: the ledger is append-only and its ids increase\<close>

lemma those_map_Some: "those (map Some ys) = Some ys"
  by (induction ys) simp_all

lemma those_Some_map: "those xs = Some ys \<Longrightarrow> xs = map Some ys"
proof (induction xs arbitrary: ys)
  case Nil
  then show ?case by simp
next
  case (Cons x xs)
  from Cons.prems obtain y zs where x: "x = Some y" and zs: "those xs = Some zs" and ys: "ys = y # zs"
    by (auto split: option.splits)
  from Cons.IH [OF zs] x ys show ?case by simp
qed

lemma those_eq_Some: "those xs = Some ys \<longleftrightarrow> xs = map Some ys"
  using those_Some_map those_map_Some by blast

lemma increasing_le_last:
  "sorted_wrt (<) ids \<Longrightarrow> i \<in> set ids \<Longrightarrow> i \<le> last (ids :: int list)"
proof (induction ids)
  case Nil
  then show ?case by simp
next
  case (Cons x ys)
  show ?case
  proof (cases "ys = []")
    case True
    with Cons.prems show ?thesis by simp
  next
    case False
    then have l: "last ys \<in> set ys" by simp
    from Cons.prems(1) have s: "sorted_wrt (<) ys" and lt: "\<forall>y\<in>set ys. x < y" by simp_all
    from Cons.prems(2) have "i = x \<or> i \<in> set ys" by simp
    then show ?thesis
    proof
      assume "i = x"
      with lt l False show ?thesis by fastforce
    next
      assume "i \<in> set ys"
      with Cons.IH s False show ?thesis by simp
    qed
  qed
qed

lemma increasing_Max:
  assumes "sorted_wrt (<) ids" "ids \<noteq> []"
  shows "Max (set ids) = last (ids :: int list)"
proof (rule Max_eqI)
  show "finite (set ids)" by simp
  show "\<And>y. y \<in> set ids \<Longrightarrow> y \<le> last ids"
    using assms(1) by (rule increasing_le_last)
  show "last ids \<in> set ids" using assms(2) by simp
qed

lemma spec_next_id_last:
  "sorted_wrt (<) ids \<Longrightarrow> spec_next_id ids = (if ids = [] then 1 else last ids + 1)"
  by (simp add: spec_next_id_def increasing_Max)

lemma spec_next_id_greater:
  assumes "sorted_wrt (<) ids"
  shows "list_all (\<lambda>i. i < spec_next_id ids) ids"
proof -
  have "i < spec_next_id ids" if "i \<in> set ids" for i
  proof -
    from that have ne: "ids \<noteq> []" by auto
    from assms that have "i \<le> last ids" by (rule increasing_le_last)
    with ne assms show ?thesis by (simp add: spec_next_id_last)
  qed
  then show ?thesis by (simp add: list_all_iff)
qed

lemma spec_next_id_positive:
  assumes "sorted_wrt (<) ids" "list_all (\<lambda>i. 0 < i) ids"
  shows "0 < spec_next_id ids"
proof (cases "ids = []")
  case True
  then show ?thesis by (simp add: spec_next_id_def)
next
  case False
  then have "last ids \<in> set ids" by simp
  with assms(2) have "0 < last ids" by (simp add: list_all_iff)
  with False assms(1) show ?thesis by (simp add: spec_next_id_last)
qed

text \<open>The ledger the server starts from, with no file yet, is one as the server keeps it.\<close>

lemma ledger_ok_without_file: "csv_rows w = None \<Longrightarrow> ledger_ok w"
  by (simp add: ledger_ok_def stored_ids_def entries_def)

text \<open>The id the code computes is the one the specification names.\<close>

lemma next_id_is_spec:
  assumes "those (map row_id rows) = Some ids" "sorted_wrt (<) ids"
  shows "next_id R (header # rows) = Inr (spec_next_id ids)"
proof (cases "rows = []")
  case True
  with assms(1) have "ids = []" by (simp add: those_eq_Some)
  with True show ?thesis by (simp add: next_id_def spec_next_id_def)
next
  case False
  from assms(1) have m: "map row_id rows = map Some ids" by (simp add: those_eq_Some)
  with False have ne: "ids \<noteq> []" by auto
  from m have "last (map row_id rows) = last (map Some ids)" by simp
  with False ne have "row_id (last rows) = Some (last ids)" by (simp add: last_map)
  then obtain f fs where "last rows = f # fs" "py_int f = Some (last ids)"
    by (cases "last rows") (auto simp: row_id_def)
  with False ne assms(2) show ?thesis
    by (simp add: next_id_def spec_next_id_last)
qed

lemma row_id_ledger_row: "row_id (ledger_row R n operation a b result now) = Some n"
  by (simp add: row_id_def ledger_row_def py_int_show_int)

lemma save_calculation_appends:
  assumes ok: "ledger_ok w" and av: "available w" and ids: "stored_ids w = Some ids"
  shows "csv_rows (save_calculation R now operation a b result w) =
           Some ((case csv_rows w of None \<Rightarrow> [csv_header] | Some stored \<Rightarrow> stored)
                 @ [ledger_row R (spec_next_id ids) operation a b result now])"
    and "rd_fault (save_calculation R now operation a b result w) = None"
    and "wr_fault (save_calculation R now operation a b result w) = None"
proof -
  from av have rd: "rd_fault w = None" and wr: "wr_fault w = None"
    by (simp_all add: available_def)
  from ok ids have sorted: "sorted_wrt (<) ids"
    by (simp add: ledger_ok_def)
  have "csv_rows (save_calculation R now operation a b result w) =
           Some ((case csv_rows w of None \<Rightarrow> [csv_header] | Some stored \<Rightarrow> stored)
                 @ [ledger_row R (spec_next_id ids) operation a b result now])
      \<and> rd_fault (save_calculation R now operation a b result w) = None
      \<and> wr_fault (save_calculation R now operation a b result w) = None"
  proof (cases "csv_rows w")
    case None
    with ids have "ids = []"
      by (simp add: stored_ids_def entries_def)
    then have n: "next_id R [csv_header] = Inr (spec_next_id ids)"
      by (simp add: next_id_def spec_next_id_def)
    from None rd wr show ?thesis
      by (simp add: save_calculation_def save_calculation_try_def init_csv_def log_msg_def n
          ledger_row_def)
  next
    case (Some stored)
    with ok obtain header rows where st: "stored = header # rows"
      by (cases stored) (auto simp: ledger_ok_def)
    with Some ids have "those (map row_id rows) = Some ids"
      by (simp add: stored_ids_def entries_def)
    then have n: "next_id R stored = Inr (spec_next_id ids)"
      unfolding st using sorted by (rule next_id_is_spec)
    from Some rd wr show ?thesis
      by (simp add: save_calculation_def save_calculation_try_def init_csv_def log_msg_def n
          ledger_row_def)
  qed
  then show "csv_rows (save_calculation R now operation a b result w) =
           Some ((case csv_rows w of None \<Rightarrow> [csv_header] | Some stored \<Rightarrow> stored)
                 @ [ledger_row R (spec_next_id ids) operation a b result now])"
    and "rd_fault (save_calculation R now operation a b result w) = None"
    and "wr_fault (save_calculation R now operation a b result w) = None"
    by simp_all
qed

lemma save_calculation_ledger:
  assumes ok: "ledger_ok w" and av: "available w" and ids: "stored_ids w = Some ids"
  shows "entries (save_calculation R now operation a b result w) =
           entries w @ [ledger_row R (spec_next_id ids) operation a b result now]"
    and "stored_ids (save_calculation R now operation a b result w) = Some (ids @ [spec_next_id ids])"
    and "ledger_ok (save_calculation R now operation a b result w)"
    and "available (save_calculation R now operation a b result w)"
proof -
  let ?w' = "save_calculation R now operation a b result w"
  let ?row = "ledger_row R (spec_next_id ids) operation a b result now"
  note sc = save_calculation_appends [OF ok av ids, of R now operation a b result]
  from ok have nonempty: "csv_rows w \<noteq> Some []" by (simp add: ledger_ok_def)
  from ok ids have sorted: "sorted_wrt (<) ids" and pos: "list_all (\<lambda>i. 0 < i) ids"
    by (simp_all add: ledger_ok_def)
  show e: "entries ?w' = entries w @ [?row]"
  proof (cases "csv_rows w")
    case None
    then show ?thesis by (simp add: entries_def sc(1))
  next
    case (Some stored)
    with nonempty have "stored \<noteq> []" by auto
    with Some show ?thesis by (simp add: entries_def sc(1))
  qed
  from ids have "map row_id (entries w) = map Some ids"
    by (simp add: stored_ids_def those_eq_Some)
  then have "map row_id (entries ?w') = map Some (ids @ [spec_next_id ids])"
    by (simp add: e row_id_ledger_row)
  then show s: "stored_ids ?w' = Some (ids @ [spec_next_id ids])"
    by (simp only: stored_ids_def those_map_Some)
  have "sorted_wrt (<) (ids @ [spec_next_id ids])"
    using sorted spec_next_id_greater [OF sorted]
    by (simp add: sorted_wrt_append list_all_iff)
  moreover have "list_all (\<lambda>i. 0 < i) (ids @ [spec_next_id ids])"
    using pos spec_next_id_positive [OF sorted pos] by simp
  moreover have "csv_rows ?w' \<noteq> Some []"
    by (simp add: sc(1))
  ultimately show "ledger_ok ?w'"
    by (simp add: ledger_ok_def s)
  show "available ?w'"
    by (simp add: available_def sc(2,3))
qed

text \<open>
  C3, as stated, fails: an arithmetic call can succeed and append nothing. On a medium that
  cannot be written, \<open>mul\<close> of 5 and 3 answers 200 with the product, and the ledger has
  the entries it had.
\<close>

theorem successful_call_appends_nothing_counterexample:
  "fst (handle_mcp demo_runtime ''2024-01-01T10:00:02''
     (Inr (mcp_request (JInt 1) ''tools/call'' ''mul'' [(''a'', JInt 5), (''b'', JInt 3)]))
     read_only_world)
   = Reply 200 (text_result ''Multiplication: 5 * 3 = 15'' (JInt 1))
   \<and> entries (snd (handle_mcp demo_runtime ''2024-01-01T10:00:02''
     (Inr (mcp_request (JInt 1) ''tools/call'' ''mul'' [(''a'', JInt 5), (''b'', JInt 3)]))
     read_only_world)) = entries read_only_world"
proof -
  let ?args = "[(''a'', JInt 5), (''b'', JInt 3)] :: (string \<times> rat json) list"
  have o: "operands (JObj ?args) (JInt 5) (JInt 3)"
    by (simp add: operands_def py_get_def)
  have n: "is_number (JInt 5 :: rat json)" "is_number (JInt 3 :: rat json)"
    by (simp_all add: is_number_def)
  have t: "arith_tool ''mul'' = Some (Mul, ''Multiplication'', ''*'')"
    by (simp add: arith_tool_def)
  have z: "Mul = TrueDiv \<longrightarrow> \<not> py_eq_zero demo_runtime (JInt 3)"
    by simp
  have r: "py_binop demo_runtime Mul (JInt 5) (JInt 3) = Inr (JInt 15)"
    by (simp add: py_binop_def num_of_def num_op_def int_op_def)
  have u: "\<not> available read_only_world"
    by (simp add: available_def read_only_world_def two_entries_def fresh_world_def)
  have s: "py_str demo_runtime (JInt 5) = ''5''" "py_str demo_runtime (JInt 3) = ''3''"
    "py_str demo_runtime (JInt 15) = ''15''"
    by (simp_all add: py_str_def show_int_def show_nat.simps digit_char_def digit_table_def)
  show ?thesis
    using handle_mcp_arith [OF mcp_request_call [of "JInt 1" "''mul''" ?args] o n t z r,
        where now = "''2024-01-01T10:00:02''" and w = read_only_world]
      save_calculation_unavailable [OF u, of demo_runtime "''2024-01-01T10:00:02''" "''mul''"
        "JInt 5" "JInt 3" "JInt 15"]
    by (simp add: s)
qed

text \<open>
  C3, amended. On a ledger as the server keeps it (ids positive and strictly increasing) and
  with the medium available, an arithmetic \<open>tools/call\<close> that succeeds (the operator
  returns, and operands and result are ints that \<open>str\<close> prints, or floats) answers 200 and
  leaves the world that \<open>save_calculation\<close> gives: the entries are the old ones, unchanged
  and in place, followed by exactly one new row; its id is the greatest stored id plus one,
  or 1 on an empty ledger, hence greater than every stored id; and the ledger is again as the
  server keeps it, the medium still available.
\<close>

theorem append_assigns_next_id:
  assumes "tools_call data (JStr name) arguments"
    and "py_get data ''id'' JNull = Inr request_id"
    and "operands arguments a b"
    and "is_number a" and "is_number b"
    and "arith_tool name = Some (op, label, symbol)"
    and "op = TrueDiv \<longrightarrow> \<not> py_eq_zero R b"
    and "py_binop R op a b = Inr result"
    and "ledger_ok w" and "available w" and "stored_ids w = Some ids"
    and "printable a" and "printable b" and "printable result"
  shows "reply_status (fst (handle_mcp R now (Inr data) w)) = Some 200
       \<and> snd (handle_mcp R now (Inr data) w) = save_calculation R now name a b result w
       \<and> entries (save_calculation R now name a b result w) =
           entries w @ [ledger_row R (spec_next_id ids) name a b result now]
       \<and> stored_ids (save_calculation R now name a b result w) = Some (ids @ [spec_next_id ids])
       \<and> list_all (\<lambda>i. i < spec_next_id ids) ids
       \<and> ledger_ok (save_calculation R now name a b result w)
       \<and> available (save_calculation R now name a b result w)"
proof -
  from assms(9,11) have "sorted_wrt (<) ids"
    by (simp add: ledger_ok_def)
  then have "list_all (\<lambda>i. i < spec_next_id ids) ids"
    by (rule spec_next_id_greater)
  moreover have "snd (handle_mcp R now (Inr data) w) = save_calculation R now name a b result w"
    by (simp only: handle_mcp_arith [OF assms(1-8)] snd_conv)
  moreover have "reply_status (fst (handle_mcp R now (Inr data) w)) = Some 200"
    by (simp only: handle_mcp_arith [OF assms(1-8)] fst_conv reply_status_Reply)
  ultimately show ?thesis
    using save_calculation_ledger [OF assms(9,10,11), of R now name a b result]
    by (simp only: simp_thms)
qed

lemma stored_ids_two_entries: "stored_ids two_entries = Some [1, 2]"
  by (simp add: stored_ids_def entries_def two_entries_def fresh_world_def row_id_def py_int_def
      strip_def is_space_def parse_nat_def digit_val_def digit_table_def)

theorem append_assigns_next_id_witness:
  "entries (snd (handle_mcp demo_runtime ''2024-01-01T10:00:02''
      (Inr (mcp_request (JInt 1) ''tools/call'' ''plus'' [(''a'', JInt 5), (''b'', JInt 3)]))
      two_entries))
   = entries two_entries @ [[''3'', ''plus'', ''5'', ''3'', ''8'', ''2024-01-01T10:00:02'']]
   \<and> stored_ids (snd (handle_mcp demo_runtime ''2024-01-01T10:00:02''
      (Inr (mcp_request (JInt 1) ''tools/call'' ''plus'' [(''a'', JInt 5), (''b'', JInt 3)]))
      two_entries)) = Some [1, 2, 3]"
proof -
  let ?d = "mcp_request (JInt 1) ''tools/call'' ''plus'' [(''a'', JInt 5), (''b'', JInt 3)] :: rat json"
  let ?args = "JObj [(''a'', JInt 5), (''b'', JInt 3)] :: rat json"
  have c: "tools_call ?d (JStr ''plus'') ?args"
    by (simp add: tools_call_def mcp_request_def py_get_def)
  have i: "py_get ?d ''id'' JNull = Inr (JInt 1)"
    by (simp add: mcp_request_def py_get_def)
  have o: "operands ?args (JInt 5) (JInt 3)"
    by (simp add: operands_def py_get_def)
  have n: "is_number (JInt 5 :: rat json)" "is_number (JInt 3 :: rat json)"
    by (simp_all add: is_number_def)
  have t: "arith_tool ''plus'' = Some (Add, ''Addition'', ''+'')"
    by (simp add: arith_tool_def)
  have z: "Add = TrueDiv \<longrightarrow> \<not> py_eq_zero demo_runtime (JInt 3)"
    by simp
  have r: "py_binop demo_runtime Add (JInt 5) (JInt 3) = Inr (JInt 8)"
    by (simp add: py_binop_def num_of_def num_op_def int_op_def)
  have ok: "ledger_ok two_entries"
    by (simp add: ledger_ok_def stored_ids_two_entries) (simp add: two_entries_def fresh_world_def)
  have av: "available two_entries"
    by (simp add: available_def two_entries_def fresh_world_def)
  have nx: "spec_next_id [1, 2] = 3"
    by (simp add: spec_next_id_def)
  have row: "ledger_row demo_runtime 3 ''plus'' (JInt 5) (JInt 3) (JInt 8) ''2024-01-01T10:00:02''
      = [''3'', ''plus'', ''5'', ''3'', ''8'', ''2024-01-01T10:00:02'']"
    by (simp add: ledger_row_def csv_field_def py_str_def show_int_def show_nat.simps digit_char_def
        digit_table_def)
  have p: "printable (JInt 5 :: rat json)" "printable (JInt 3 :: rat json)"
    "printable (JInt 8 :: rat json)"
    by (rule printable_int [of _ 1], simp, simp)+
  show ?thesis
    using append_assigns_next_id [OF c i o n t z r ok av stored_ids_two_entries p,
        of "''2024-01-01T10:00:02''"]
    by (simp add: nx row)
qed

subsection \<open>C2: the history with the limit 0\<close>

lemma slice_from_all: "length xs \<le> n \<Longrightarrow> slice_from xs (- (int n + 1)) = xs"
  by (simp add: slice_from_def)

lemma slice_from_zero: "slice_from xs 0 = xs"
  by (simp add: slice_from_def)

lemma init_csv_entries: "init_csv w = Inr w1 \<Longrightarrow> entries w1 = entries w"
  by (auto simp: init_csv_def entries_def log_msg_def split: option.splits)

lemma history_try_int:
  "get_calculation_history_try R (JInt n) w =
     (case init_csv w of
        Inl e \<Rightarrow> Inl (e, w)
      | Inr w1 \<Rightarrow>
          (case rd_fault w1 of
             Some m \<Rightarrow> Inl (PyExn ''OSError'' m, w1)
           | None \<Rightarrow>
               (case csv_rows w1 of
                  None \<Rightarrow> Inl (PyExn ''FileNotFoundError'' (csv_path w1), w1)
                | Some stored \<Rightarrow>
                    (case read_entries R (fst (dict_rows stored))
                            (rev (slice_from (snd (dict_rows stored)) (- n))) of
                       Inl e \<Rightarrow> Inl (e, w1)
                     | Inr history \<Rightarrow> Inr (history, w1)))))"
  by (simp add: get_calculation_history_try_def neg_limit_def split: sum.splits option.splits)

text \<open>With the limit 0 the history is the one an unbounded limit gives.\<close>

lemma history_limit_zero_is_unbounded:
  "get_calculation_history R (JInt 0) w =
   get_calculation_history R (JInt (int (length (entries w)) + 1)) w"
proof -
  have "get_calculation_history_try R (JInt 0) w =
      get_calculation_history_try R (JInt (int (length (entries w)) + 1)) w"
  proof (cases "init_csv w")
    case (Inl e)
    then show ?thesis by (simp add: history_try_int)
  next
    case (Inr w1)
    show ?thesis
    proof (cases "csv_rows w1")
      case None
      with Inr show ?thesis by (simp add: history_try_int split: option.splits)
    next
      case (Some stored)
      with init_csv_entries [OF Inr] have len: "length (tl stored) = length (entries w)"
        by (simp add: entries_def)
      have "length (snd (dict_rows stored)) \<le> length (tl stored)"
        by (cases stored) (simp_all add: dict_rows_def)
      with len have "length (snd (dict_rows stored)) \<le> length (entries w)"
        by simp
      then have "slice_from (snd (dict_rows stored)) (- (int (length (entries w)) + 1))
          = slice_from (snd (dict_rows stored)) (- 0)"
        by (simp only: slice_from_all slice_from_zero minus_zero)
      with Inr Some show ?thesis
        by (simp add: history_try_int split: option.splits)
    qed
  qed
  then show ?thesis
    by (simp only: get_calculation_history_def)
qed

lemma slice_from_last: "0 < n \<Longrightarrow> slice_from xs (- int n) = drop (length xs - n) xs"
  by (simp add: slice_from_def) (metis int_minus nat_int uminus_add_conv_diff)

text \<open>
  C2. The comment of the source says \<open>Get last N rows\<close>, and for a positive limit the
  slice \<open>rows[-limit:]\<close> is that. For the limit 0 the slice is \<open>rows[0:]\<close>, every row: on
  a ledger of two entries the history with limit 0 has both of them, where the claim has none.
\<close>

theorem history_limit_zero_returns_everything:
  "map e_id (fst (get_calculation_history demo_runtime (JInt 0) two_entries)) = [2, 1]"
  by (simp add: get_calculation_history_def get_calculation_history_try_def init_csv_def
      two_entries_def fresh_world_def neg_limit_def dict_rows_def slice_from_def read_entry_def
      dict_row_def csv_header_def int_of_field_def float_of_field_def demo_runtime_def
      py_int_def strip_def is_space_def parse_nat_def digit_val_def digit_table_def)

subsection \<open>C8: failures of the gateway\<close>

lemma jedox_try_call:
  assumes "jedox_tools_call data tool_name arguments request_id"
  shows "jedox_handle_mcp_try R G data = jedox_call_tool R G tool_name arguments request_id"
proof -
  from assms have call: "tools_call data tool_name arguments"
    and rid: "py_get data ''id'' (JInt 1) = Inr request_id"
    by (simp_all add: jedox_tools_call_def)
  from call obtain params where
      m: "py_get data ''method'' JNull = Inr (JStr ''tools/call'')"
    and p: "py_get data ''params'' (JObj []) = Inr params"
    and n: "py_get params ''name'' JNull = Inr tool_name"
    and a: "py_get params ''arguments'' (JObj []) = Inr arguments"
    by (rule tools_call_reads)
  show ?thesis
    by (simp add: jedox_handle_mcp_try_def m p n a rid)
qed

lemma jedox_handle_mcp_of_try:
  "jedox_handle_mcp_try R G data = Inr res \<Longrightarrow> jedox_handle_mcp R G (Inr data) = res"
  by (simp add: jedox_handle_mcp_def)

lemma failing_helpers:
  assumes "gateway_fails G e"
  shows "list_databases G = JArr []"
    and "list_cubes R G database = JArr []"
    and "list_dimensions R G database = JArr []"
    and "read_jedox_range R G database cube coordinates_list = JArr []"
    and "read_jedox_cell R G database cube coordinates = JObj [(''error'', JStr (exn_str e))]"
    and "write_jedox_cell R G database cube coordinates val =
           JObj [(''status'', JStr ''error''), (''error'', JStr (exn_str e))]"
proof -
  from assms have g: "\<And>url. http_get G url = Inl e" and p: "\<And>url payload. http_post G url payload = Inl e"
    by (simp_all add: gateway_fails_def)
  show "list_databases G = JArr []"
    by (simp add: list_databases_def list_databases_try_def g)
  show "list_cubes R G database = JArr []"
    by (simp add: list_cubes_def list_cubes_try_def g)
  show "list_dimensions R G database = JArr []"
    by (simp add: list_dimensions_def list_dimensions_try_def g)
  show "read_jedox_range R G database cube coordinates_list = JArr []"
    by (simp add: read_jedox_range_def read_jedox_range_try_def p)
  show "read_jedox_cell R G database cube coordinates = JObj [(''error'', JStr (exn_str e))]"
    by (simp add: read_jedox_cell_def read_jedox_cell_try_def p)
  show "write_jedox_cell R G database cube coordinates val =
           JObj [(''status'', JStr ''error''), (''error'', JStr (exn_str e))]"
    by (simp add: write_jedox_cell_def p)
qed

lemma show_int_zero: "show_int 0 = ''0''"
  by (simp add: show_int_def show_nat.simps digit_char_def digit_table_def)

lemma failing_call_tool:
  assumes gf: "gateway_fails G e"
  shows "jedox_call_tool R G (JStr ''jedox_list_databases'') (JObj args) rid =
           Inr (Reply 200 (text_result ''Available Jedox Databases:\<newline>'' rid))"
    and "jedox_call_tool R G (JStr ''jedox_list_cubes'') (JObj args) rid =
           Inr (Reply 200 (text_result (''Cubes in database ''
                 @ quoted (py_str R (argument args ''database'')) @ '':\<newline>'') rid))"
    and "jedox_call_tool R G (JStr ''jedox_list_dimensions'') (JObj args) rid =
           Inr (Reply 200 (text_result (''Dimensions in database ''
                 @ quoted (py_str R (argument args ''database'')) @ '':\<newline>'') rid))"
    and "jedox_call_tool R G (JStr ''jedox_read_cell'') (JObj args) rid =
           Inr (Reply 200 (text_result (''Error: '' @ exn_str e) rid))"
    and "jedox_call_tool R G (JStr ''jedox_write_cell'') (JObj args) rid =
           Inr (Reply 200 (text_result (''Error: '' @ exn_str e) rid))"
    and "jedox_call_tool R G (JStr ''jedox_read_range'') (JObj args) rid =
           Inr (Reply 200 (text_result ''Read 0 cells:\<newline>'' rid))"
proof -
  note h = failing_helpers [OF gf]
  show "jedox_call_tool R G (JStr ''jedox_list_databases'') (JObj args) rid =
           Inr (Reply 200 (text_result ''Available Jedox Databases:\<newline>'' rid))"
    by (simp add: jedox_call_tool_def h py_iter_def)
  show "jedox_call_tool R G (JStr ''jedox_list_cubes'') (JObj args) rid =
           Inr (Reply 200 (text_result (''Cubes in database ''
                 @ quoted (py_str R (argument args ''database'')) @ '':\<newline>'') rid))"
    by (simp add: jedox_call_tool_def h py_iter_def py_get_argument)
  show "jedox_call_tool R G (JStr ''jedox_list_dimensions'') (JObj args) rid =
           Inr (Reply 200 (text_result (''Dimensions in database ''
                 @ quoted (py_str R (argument args ''database'')) @ '':\<newline>'') rid))"
    by (simp add: jedox_call_tool_def h py_iter_def py_get_argument)
  show "jedox_call_tool R G (JStr ''jedox_read_cell'') (JObj args) rid =
           Inr (Reply 200 (text_result (''Error: '' @ exn_str e) rid))"
    by (simp add: jedox_call_tool_def h py_get_argument py_str_def)
  show "jedox_call_tool R G (JStr ''jedox_write_cell'') (JObj args) rid =
           Inr (Reply 200 (text_result (''Error: '' @ exn_str e) rid))"
    by (simp add: jedox_call_tool_def h py_get_argument py_str_def Let_def py_get_def)
  show "jedox_call_tool R G (JStr ''jedox_read_range'') (JObj args) rid =
           Inr (Reply 200 (text_result ''Read 0 cells:\<newline>'' rid))"
    by (simp add: jedox_call_tool_def h py_get_argument py_iter_def py_len_def Let_def show_int_zero)
qed

text \<open>
  C8, as stated, fails: with the gateway down, \<open>jedox_list_databases\<close> answers with the
  heading of an empty listing, not with a text \<open>Error: <message>\<close>. The helper catches
  the exception and returns the empty list.
\<close>

theorem gateway_failure_listing_counterexample:
  "reply_text (jedox_handle_mcp demo_runtime down_gateway
      (Inr (mcp_request (JInt 1) ''tools/call'' ''jedox_list_databases'' [])))
     = Some ''Available Jedox Databases:\<newline>''
   \<and> \<not> prefix ''Error: '' ''Available Jedox Databases:\<newline>''"
  by (simp add: jedox_handle_mcp_def jedox_handle_mcp_try_def mcp_request_def py_get_def
      jedox_call_tool_def list_databases_def list_databases_try_def down_gateway_def py_iter_def
      reply_text_def text_result_def member_of_def)

text \<open>
  C8, amended. When every call to the remote service raises \<open>e\<close>, a \<open>tools/call\<close> with an
  arguments object is answered 200 with a success envelope, never an error object:
  \<open>jedox_read_cell\<close> and \<open>jedox_write_cell\<close> give the text \<open>Error: <str(e)>\<close>, and
  \<open>jedox_list_databases\<close>, \<open>jedox_list_cubes\<close>, \<open>jedox_list_dimensions\<close> and
  \<open>jedox_read_range\<close> give the text of an empty listing.
\<close>

theorem gateway_failure_in_band:
  assumes "gateway_fails G e"
    and "jedox_tools_call data (JStr name) (JObj args) request_id"
  shows "(name = ''jedox_read_cell'' \<or> name = ''jedox_write_cell'' \<longrightarrow>
            jedox_handle_mcp R G (Inr data) =
              Reply 200 (text_result (''Error: '' @ exn_str e) request_id))
       \<and> (name = ''jedox_list_databases'' \<longrightarrow>
            jedox_handle_mcp R G (Inr data) =
              Reply 200 (text_result ''Available Jedox Databases:\<newline>'' request_id))
       \<and> (name = ''jedox_list_cubes'' \<longrightarrow>
            jedox_handle_mcp R G (Inr data) =
              Reply 200 (text_result (''Cubes in database ''
                 @ quoted (py_str R (argument args ''database'')) @ '':\<newline>'') request_id))
       \<and> (name = ''jedox_list_dimensions'' \<longrightarrow>
            jedox_handle_mcp R G (Inr data) =
              Reply 200 (text_result (''Dimensions in database ''
                 @ quoted (py_str R (argument args ''database'')) @ '':\<newline>'') request_id))
       \<and> (name = ''jedox_read_range'' \<longrightarrow>
            jedox_handle_mcp R G (Inr data) =
              Reply 200 (text_result ''Read 0 cells:\<newline>'' request_id))"
  using failing_call_tool [OF assms(1), of R args request_id]
  by (auto simp only: jedox_try_call [OF assms(2), of R G] intro!: jedox_handle_mcp_of_try)

theorem gateway_failure_in_band_witness:
  "jedox_handle_mcp demo_runtime down_gateway
      (Inr (mcp_request (JInt 1) ''tools/call'' ''jedox_read_cell''
              [(''database'', JStr ''Sales''), (''cube'', JStr ''Revenue''),
               (''coordinates'', JArr [JStr ''2024'', JStr ''Beijing''])]))
     = Reply 200 (text_result ''Error: connection refused'' (JInt 1))
   \<and> jedox_handle_mcp demo_runtime down_gateway
      (Inr (mcp_request (JInt 2) ''tools/call'' ''jedox_write_cell''
              [(''database'', JStr ''Sales''), (''cube'', JStr ''Revenue''),
               (''coordinates'', JArr [JStr ''2024'', JStr ''Beijing'']), (''value'', JInt 7)]))
     = Reply 200 (text_result ''Error: connection refused'' (JInt 2))
   \<and> jedox_handle_mcp demo_runtime down_gateway
      (Inr (mcp_request (JInt 3) ''tools/call'' ''jedox_list_databases'' []))
     = Reply 200 (text_result ''Available Jedox Databases:\<newline>'' (JInt 3))
   \<and> jedox_handle_mcp demo_runtime down_gateway
      (Inr (mcp_request (JInt 4) ''tools/call'' ''jedox_list_cubes'' [(''database'', JStr ''Sales'')]))
     = Reply 200 (text_result ''Cubes in database 'Sales':\<newline>'' (JInt 4))
   \<and> jedox_handle_mcp demo_runtime down_gateway
      (Inr (mcp_request (JInt 5) ''tools/call'' ''jedox_list_dimensions'' [(''database'', JStr ''Sales'')]))
     = Reply 200 (text_result ''Dimensions in database 'Sales':\<newline>'' (JInt 5))
   \<and> jedox_handle_mcp demo_runtime down_gateway
      (Inr (mcp_request (JInt 6) ''tools/call'' ''jedox_read_range'' [(''database'', JStr ''Sales'')]))
     = Reply 200 (text_result ''Read 0 cells:\<newline>'' (JInt 6))"
proof -
  have gf: "gateway_fails down_gateway (PyExn ''ConnectionError'' ''connection refused'')"
    by (simp add: gateway_fails_def down_gateway_def)
  have call: "jedox_tools_call (mcp_request rid ''tools/call'' name args) (JStr name) (JObj args) rid"
    for rid :: "rat json" and name args
    by (simp add: jedox_tools_call_def tools_call_def mcp_request_def py_get_def)
  have q: "py_str demo_runtime (argument [(''database'', JStr ''Sales'' :: rat json)] ''database'') = ''Sales''"
    by (simp add: argument_def py_str_def)
  let ?cell = "[(''database'', JStr ''Sales''), (''cube'', JStr ''Revenue''),
               (''coordinates'', JArr [JStr ''2024'', JStr ''Beijing''])] :: (string \<times> rat json) list"
  show ?thesis
    using gateway_failure_in_band [OF gf call [of "JInt 1" "''jedox_read_cell''" ?cell], of demo_runtime]
      gateway_failure_in_band [OF gf call [of "JInt 2" "''jedox_write_cell''" "?cell @ [(''value'', JInt 7)]"],
        of demo_runtime]
      gateway_failure_in_band [OF gf call [of "JInt 3" "''jedox_list_databases''" "[]"], of demo_runtime]
      gateway_failure_in_band [OF gf call [of "JInt 4" "''jedox_list_cubes''" "[(''database'', JStr ''Sales'')]"],
        of demo_runtime]
      gateway_failure_in_band [OF gf call [of "JInt 5" "''jedox_list_dimensions''" "[(''database'', JStr ''Sales'')]"],
        of demo_runtime]
      gateway_failure_in_band [OF gf call [of "JInt 6" "''jedox_read_range''" "[(''database'', JStr ''Sales'')]"],
        of demo_runtime]
    by (simp add: q quoted_def)
qed

subsection \<open>C9: the statuses of \<open>/mcp\<close>\<close>

lemma then_do_InrE:
  assumes "then_do m f = Inr r"
  obtains x where "m = Inr x" "f x = Inr r"
  using assms by (cases m) simp_all

lemma is_success_text_result [simp]: "is_success (text_result t rid)"
  by (simp add: is_success_def text_result_def member_of_def)

lemma error_code_error_body [simp]: "error_code (error_body code msg rid) = Some code"
  by (simp add: error_code_def error_body_def member_of_def)

lemma calculator_status_intros:
  "is_success c \<Longrightarrow> calculator_status (Reply 200 c)"
  "calculator_status (Reply 400 (error_body (- 32601) msg rid))"
  "calculator_status (Reply 400 (error_body (- 32602) msg rid))"
  "calculator_status (Reply 400 (error_body (- 32603) msg rid))"
  "calculator_status (Reply 500 (error_body (- 32603) msg rid))"
  "calculator_status (Unhandled e)"
  by (simp_all add: calculator_status_def)

lemma call_tool_status:
  assumes "call_tool R now tool_name arguments a b rid w = Inr (r, w')"
  shows "calculator_status r"
  using assms unfolding call_tool_def
  by (auto simp: calculator_status_intros split: if_splits prod.splits elim!: then_do_InrE)

lemma handle_mcp_try_status:
  assumes "handle_mcp_try R now data w = Inr (r, w')"
  shows "calculator_status r"
  using assms unfolding handle_mcp_try_def
  apply (auto simp: calculator_status_intros is_success_def member_of_def
      split: if_splits elim!: then_do_InrE)
  apply (erule call_tool_status)
  done

lemma handle_mcp_status: "calculator_status (fst (handle_mcp R now request w))"
proof (cases request)
  case (Inl e)
  then show ?thesis by (simp add: handle_mcp_def calculator_status_intros)
next
  case (Inr data)
  show ?thesis
  proof (cases "handle_mcp_try R now data w")
    case ok: (Inr res)
    obtain r w' where "res = (r, w')" by (cases res)
    with ok Inr handle_mcp_try_status [of R now data w r w'] show ?thesis
      by (simp add: handle_mcp_def)
  next
    case (Inl e)
    with Inr show ?thesis
      by (cases "py_get data ''id'' JNull") (simp_all add: handle_mcp_def calculator_status_intros)
  qed
qed

lemma jedox_call_tool_status:
  assumes "jedox_call_tool R G tool_name arguments rid = Inr r"
  shows "reply_status r = Some 200"
  using assms unfolding jedox_call_tool_def Let_def
  by (auto simp: reply_status_Reply split: if_splits elim!: then_do_InrE)

lemma jedox_try_status:
  assumes "jedox_handle_mcp_try R G body = Inr r"
  shows "reply_status r = Some 200"
  using assms unfolding jedox_handle_mcp_try_def
  by (auto simp: reply_status_Reply split: if_splits elim!: then_do_InrE
      intro: jedox_call_tool_status)

lemma jedox_status: "reply_status (jedox_handle_mcp R G request) = Some 200"
proof (cases request)
  case (Inl e)
  then show ?thesis by (simp add: jedox_handle_mcp_def reply_status_Reply)
next
  case (Inr body)
  then show ?thesis
    by (cases "jedox_handle_mcp_try R G body")
       (simp_all add: jedox_handle_mcp_def reply_status_Reply jedox_try_status)
qed

lemma handle_mcp_unparsed:
  "fst (handle_mcp R now (Inl e) w) = Reply 500 (error_body (- 32603) (exn_str e) JNull)"
  by (simp add: handle_mcp_def)

lemma py_get_raises:
  assumes "py_get d k dflt = Inl e"
  shows "py_get d k' dflt' = Inl e"
  using assms by (cases d) (simp_all add: py_get_def)

lemma handle_mcp_not_object:
  assumes "py_get data ''id'' JNull = Inl e"
  shows "fst (handle_mcp R now (Inr data) w) = Unhandled e"
proof -
  have "py_get data ''method'' JNull = Inl e"
    using assms by (rule py_get_raises)
  then have "handle_mcp_try R now data w = Inl e"
    by (simp add: handle_mcp_try_def)
  then show ?thesis
    using assms by (simp add: handle_mcp_def)
qed

lemma call_tool_returns:
  assumes "call_tool R now tool_name arguments a b rid w = Inr (r, w')"
  shows "reply_status r = Some 200 \<or> reply_status r = Some 400"
  using assms unfolding call_tool_def
  by (auto simp: reply_status_Reply split: if_splits prod.splits elim!: then_do_InrE)

lemma handle_mcp_try_returns:
  assumes "handle_mcp_try R now data w = Inr (r, w')"
  shows "reply_status r = Some 200 \<or> reply_status r = Some 400"
  using assms unfolding handle_mcp_try_def
  apply (auto simp: reply_status_Reply split: if_splits elim!: then_do_InrE)
  apply (drule call_tool_returns)
  apply simp
  done

lemma py_get_id_object:
  assumes "py_get data ''id'' JNull = Inr rid"
  obtains kvs where "data = JObj kvs"
  using assms by (cases data) (simp_all add: py_get_def)

lemma handle_mcp_tools_list:
  assumes "py_get data ''id'' JNull = Inr rid"
    and "py_get data ''method'' JNull = Inr (JStr ''tools/list'')"
  shows "handle_mcp R now (Inr data) w =
           (Reply 200 (JObj [(''jsonrpc'', JStr ''2.0''), (''result'', JObj [(''tools'', tools)]),
                             (''id'', rid)]), w)"
proof -
  from assms(1) obtain kvs where d: "data = JObj kvs"
    by (rule py_get_id_object)
  have p: "py_get data ''params'' (JObj []) = Inr (case map_of kvs ''params'' of Some v \<Rightarrow> v | None \<Rightarrow> JObj [])"
    by (simp add: d py_get_def)
  have "handle_mcp_try R now data w =
      Inr (Reply 200 (JObj [(''jsonrpc'', JStr ''2.0''), (''result'', JObj [(''tools'', tools)]),
                             (''id'', rid)]), w)"
    unfolding handle_mcp_try_def by (simp add: assms p)
  then show ?thesis
    by (rule handle_mcp_of_try)
qed

lemma handle_mcp_unknown_method:
  assumes "py_get data ''id'' JNull = Inr rid"
    and "py_get data ''method'' JNull = Inr m"
    and "m \<noteq> JStr ''tools/list''" and "m \<noteq> JStr ''tools/call''"
  shows "handle_mcp R now (Inr data) w =
           (Reply 400 (error_body (- 32601) (''Method not found: '' @ py_str R m) rid), w)"
proof -
  from assms(1) obtain kvs where d: "data = JObj kvs"
    by (rule py_get_id_object)
  have p: "py_get data ''params'' (JObj []) = Inr (case map_of kvs ''params'' of Some v \<Rightarrow> v | None \<Rightarrow> JObj [])"
    by (simp add: d py_get_def)
  have "handle_mcp_try R now data w =
      Inr (Reply 400 (error_body (- 32601) (''Method not found: '' @ py_str R m) rid), w)"
    unfolding handle_mcp_try_def by (simp add: assms p)
  then show ?thesis
    by (rule handle_mcp_of_try)
qed

lemma handle_mcp_div_zero:
  assumes "tools_call data (JStr ''div'') arguments"
    and "py_get data ''id'' JNull = Inr rid"
    and "operands arguments a b"
    and "a \<noteq> JNull" and "py_eq_zero R b"
  shows "handle_mcp R now (Inr data) w =
           (Reply 400 (error_body (- 32603) ''Division by zero is not allowed'' rid), w)"
proof -
  from assms(4,5) have nn: "a \<noteq> JNull" "b \<noteq> JNull"
    by (simp_all add: py_eq_zero_not_null)
  then have "handle_mcp_try R now data w = call_tool R now (JStr ''div'') arguments a b rid w"
    by (simp add: handle_mcp_try_call [OF assms(1,2,3)])
  also have "\<dots> = Inr (Reply 400 (error_body (- 32603) ''Division by zero is not allowed'' rid), w)"
    using assms(5) by (simp add: call_tool_def)
  finally show ?thesis
    by (rule handle_mcp_of_try)
qed

lemma handle_mcp_unknown_tool:
  assumes "tools_call data tool_name arguments"
    and "py_get data ''id'' JNull = Inr rid"
    and "operands arguments a b"
    and "a \<noteq> JNull" and "b \<noteq> JNull"
    and "tool_name \<notin> JStr ` set registered"
  shows "handle_mcp R now (Inr data) w =
           (Reply 400 (error_body (- 32601) (''Unknown tool: '' @ py_str R tool_name) rid), w)"
proof -
  from assms(4,5)
  have "handle_mcp_try R now data w = call_tool R now tool_name arguments a b rid w"
    by (simp add: handle_mcp_try_call [OF assms(1,2,3)])
  then have "handle_mcp_try R now data w =
      Inr (Reply 400 (error_body (- 32601) (''Unknown tool: '' @ py_str R tool_name) rid), w)"
    by (simp only: call_tool_unknown [OF assms(6)])
  then show ?thesis
    by (rule handle_mcp_of_try)
qed

lemma handle_mcp_missing:
  assumes "tools_call data tool_name arguments"
    and "py_get data ''id'' JNull = Inr rid"
    and "operands arguments a b"
    and "a = JNull \<or> b = JNull"
  shows "handle_mcp R now (Inr data) w =
           (Reply 400 (error_body (- 32602) ''Missing required parameters: a and b'' rid), w)"
proof -
  from assms(4) have "handle_mcp_try R now data w =
      Inr (Reply 400 (error_body (- 32602) ''Missing required parameters: a and b'' rid), w)"
    by (simp only: handle_mcp_try_call [OF assms(1,2,3)] if_True)
  then show ?thesis
    by (rule handle_mcp_of_try)
qed

text \<open>
  C9, as stated, fails: the calculator's \<open>/mcp\<close> answers an unknown method with the
  status 400, not 200.
\<close>

theorem unknown_method_status_counterexample:
  "fst (handle_mcp demo_runtime ''2024-01-01T10:00:02''
          (Inr (JObj [(''jsonrpc'', JStr ''2.0''), (''method'', JStr ''resources/list''),
                      (''id'', JInt 1)])) fresh_world)
     = Reply 400 (error_body (- 32601) ''Method not found: resources/list'' (JInt 1))"
  by (simp add: handle_mcp_def handle_mcp_try_def py_get_def py_str_def)

text \<open>
  C9, amended. Every response of the Jedox server's \<open>/mcp\<close> has the status 200, whatever
  envelope it carries (success, unknown method, unknown tool, an exception caught by the
  handler). The calculator's \<open>/mcp\<close> answers 200 only with success envelopes, and each
  cause of an error has its status:
  \<^item> a body that does not parse: 500 with the error -32603 and the id \<open>null\<close>;
  \<^item> a body that is not an object: the exception leaves the handler, with no envelope;
  \<^item> an exception raised in the \<open>try\<close> (arguments that are not an object, an int or a
    quotient too large for a float): 500 with the error -32603 and the message of the
    exception; and whenever the \<open>try\<close> returns, the status is 200 or 400, never 500;
  \<^item> \<open>tools/list\<close>: 200 with the registry;
  \<^item> any other method than \<open>tools/list\<close> and \<open>tools/call\<close>: 400 with the error -32601;
  \<^item> a \<open>tools/call\<close> with \<open>a\<close> or \<open>b\<close> missing: 400 with the error -32602;
  \<^item> with both operands, a name that is no registered tool: 400 with the error -32601;
  \<^item> \<open>div\<close> with \<open>b\<close> equal to zero: 400 with the error -32603;
  \<^item> an arithmetic tool on two numbers whose operator returns: 200.
\<close>

theorem mcp_statuses:
  "reply_status (jedox_handle_mcp R G jedox_request) = Some 200
   \<and> calculator_status (fst (handle_mcp R now request w))
   \<and> fst (handle_mcp R now (Inl e) w) = Reply 500 (error_body (- 32603) (exn_str e) JNull)
   \<and> (py_get data ''id'' JNull = Inl e \<longrightarrow> fst (handle_mcp R now (Inr data) w) = Unhandled e)
   \<and> (py_get data ''id'' JNull = Inr rid \<and> handle_mcp_try R now data w = Inl e \<longrightarrow>
        fst (handle_mcp R now (Inr data) w) = Reply 500 (error_body (- 32603) (exn_str e) rid))
   \<and> (handle_mcp_try R now data w = Inr (r, w') \<longrightarrow>
        handle_mcp R now (Inr data) w = (r, w')
        \<and> (reply_status r = Some 200 \<or> reply_status r = Some 400))
   \<and> (py_get data ''id'' JNull = Inr rid
        \<and> py_get data ''method'' JNull = Inr (JStr ''tools/list'') \<longrightarrow>
        fst (handle_mcp R now (Inr data) w) =
          Reply 200 (JObj [(''jsonrpc'', JStr ''2.0''), (''result'', JObj [(''tools'', tools)]),
                           (''id'', rid)]))
   \<and> (py_get data ''id'' JNull = Inr rid \<and> py_get data ''method'' JNull = Inr m
        \<and> m \<noteq> JStr ''tools/list'' \<and> m \<noteq> JStr ''tools/call'' \<longrightarrow>
        fst (handle_mcp R now (Inr data) w) =
          Reply 400 (error_body (- 32601) (''Method not found: '' @ py_str R m) rid))
   \<and> (py_get data ''id'' JNull = Inr rid \<and> tools_call data tool_name arguments
        \<and> py_get arguments ''a'' JNull = Inl e \<longrightarrow>
        fst (handle_mcp R now (Inr data) w) = Reply 500 (error_body (- 32603) (exn_str e) rid))
   \<and> (py_get data ''id'' JNull = Inr rid \<and> tools_call data tool_name arguments
        \<and> operands arguments a b \<and> (a = JNull \<or> b = JNull) \<longrightarrow>
        fst (handle_mcp R now (Inr data) w) =
          Reply 400 (error_body (- 32602) ''Missing required parameters: a and b'' rid))
   \<and> (py_get data ''id'' JNull = Inr rid \<and> tools_call data tool_name arguments
        \<and> operands arguments a b \<and> a \<noteq> JNull \<and> b \<noteq> JNull
        \<and> tool_name \<notin> JStr ` set registered \<longrightarrow>
        fst (handle_mcp R now (Inr data) w) =
          Reply 400 (error_body (- 32601) (''Unknown tool: '' @ py_str R tool_name) rid))
   \<and> (py_get data ''id'' JNull = Inr rid \<and> tools_call data (JStr ''div'') arguments
        \<and> operands arguments a b \<and> a \<noteq> JNull \<and> py_eq_zero R b \<longrightarrow>
        fst (handle_mcp R now (Inr data) w) =
          Reply 400 (error_body (- 32603) ''Division by zero is not allowed'' rid))
   \<and> (py_get data ''id'' JNull = Inr rid \<and> tools_call data (JStr name) arguments
        \<and> operands arguments a b \<and> is_number a \<and> is_number b
        \<and> arith_tool name = Some (op, label, symbol)
        \<and> (op = TrueDiv \<longrightarrow> \<not> py_eq_zero R b) \<longrightarrow>
        (py_binop R op a b = Inr result \<and> printable a \<and> printable b \<and> printable result \<longrightarrow>
           reply_status (fst (handle_mcp R now (Inr data) w)) = Some 200)
        \<and> (py_binop R op a b = Inl e \<longrightarrow>
           fst (handle_mcp R now (Inr data) w) =
             Reply 500 (error_body (- 32603) (exn_str e) rid)))"
proof (intro conjI impI; (elim conjE)?)
  show "reply_status (jedox_handle_mcp R G jedox_request) = Some 200"
    by (rule jedox_status)
  show "calculator_status (fst (handle_mcp R now request w))"
    by (rule handle_mcp_status)
  show "fst (handle_mcp R now (Inl e) w) = Reply 500 (error_body (- 32603) (exn_str e) JNull)"
    by (rule handle_mcp_unparsed)
next
  assume "py_get data ''id'' JNull = Inl e"
  then show "fst (handle_mcp R now (Inr data) w) = Unhandled e"
    by (rule handle_mcp_not_object)
next
  assume "py_get data ''id'' JNull = Inr rid" "handle_mcp_try R now data w = Inl e"
  then show "fst (handle_mcp R now (Inr data) w) = Reply 500 (error_body (- 32603) (exn_str e) rid)"
    by (simp add: handle_mcp_of_try_raise)
next
  assume "handle_mcp_try R now data w = Inr (r, w')"
  then show "handle_mcp R now (Inr data) w = (r, w')"
    by (rule handle_mcp_of_try)
next
  assume "handle_mcp_try R now data w = Inr (r, w')"
  then show "reply_status r = Some 200 \<or> reply_status r = Some 400"
    by (rule handle_mcp_try_returns)
next
  assume "py_get data ''id'' JNull = Inr rid" "py_get data ''method'' JNull = Inr (JStr ''tools/list'')"
  then show "fst (handle_mcp R now (Inr data) w) =
      Reply 200 (JObj [(''jsonrpc'', JStr ''2.0''), (''result'', JObj [(''tools'', tools)]),
                       (''id'', rid)])"
    by (simp add: handle_mcp_tools_list)
next
  assume "py_get data ''id'' JNull = Inr rid" "py_get data ''method'' JNull = Inr m"
    "m \<noteq> JStr ''tools/list''" "m \<noteq> JStr ''tools/call''"
  then show "fst (handle_mcp R now (Inr data) w) =
      Reply 400 (error_body (- 32601) (''Method not found: '' @ py_str R m) rid)"
    by (simp add: handle_mcp_unknown_method)
next
  assume i: "py_get data ''id'' JNull = Inr rid" and c: "tools_call data tool_name arguments"
    and a: "py_get arguments ''a'' JNull = Inl e"
  from c a have "handle_mcp_try R now data w = Inl e"
    by (rule handle_mcp_try_no_arguments)
  then show "fst (handle_mcp R now (Inr data) w) = Reply 500 (error_body (- 32603) (exn_str e) rid)"
    using i by (simp add: handle_mcp_of_try_raise)
next
  assume i: "py_get data ''id'' JNull = Inr rid" and h: "tools_call data tool_name arguments"
    "operands arguments a b" "a = JNull \<or> b = JNull"
  show "fst (handle_mcp R now (Inr data) w) =
      Reply 400 (error_body (- 32602) ''Missing required parameters: a and b'' rid)"
    by (simp only: handle_mcp_missing [OF h(1) i h(2,3)] fst_conv)
next
  assume i: "py_get data ''id'' JNull = Inr rid" and h: "tools_call data tool_name arguments"
    "operands arguments a b" "a \<noteq> JNull" "b \<noteq> JNull" "tool_name \<notin> JStr ` set registered"
  show "fst (handle_mcp R now (Inr data) w) =
      Reply 400 (error_body (- 32601) (''Unknown tool: '' @ py_str R tool_name) rid)"
    by (simp only: handle_mcp_unknown_tool [OF h(1) i h(2-5)] fst_conv)
next
  assume i: "py_get data ''id'' JNull = Inr rid" and h: "tools_call data (JStr ''div'') arguments"
    "operands arguments a b" "a \<noteq> JNull" "py_eq_zero R b"
  show "fst (handle_mcp R now (Inr data) w) =
      Reply 400 (error_body (- 32603) ''Division by zero is not allowed'' rid)"
    by (simp only: handle_mcp_div_zero [OF h(1) i h(2-4)] fst_conv)
next
  assume h: "tools_call data (JStr name) arguments" "py_get data ''id'' JNull = Inr rid"
    "operands arguments a b" "is_number a" "is_number b"
    "arith_tool name = Some (op, label, symbol)" "op = TrueDiv \<longrightarrow> \<not> py_eq_zero R b"
    and r: "py_binop R op a b = Inr result"
  show "reply_status (fst (handle_mcp R now (Inr data) w)) = Some 200"
    by (simp only: handle_mcp_arith [OF h r] fst_conv reply_status_Reply)
next
  assume h: "tools_call data (JStr name) arguments" "py_get data ''id'' JNull = Inr rid"
    "operands arguments a b" "is_number a" "is_number b"
    "arith_tool name = Some (op, label, symbol)" "op = TrueDiv \<longrightarrow> \<not> py_eq_zero R b"
    and r: "py_binop R op a b = Inl e"
  show "fst (handle_mcp R now (Inr data) w) = Reply 500 (error_body (- 32603) (exn_str e) rid)"
    by (simp only: handle_mcp_arith_raise [OF h r] fst_conv)
qed


theorem mcp_statuses_witness:
  "reply_status (jedox_handle_mcp demo_runtime down_gateway
      (Inl (PyExn ''JSONDecodeError'' ''Expecting value''))) = Some 200
   \<and> calculator_status (fst (handle_mcp demo_runtime ''2024-01-01T10:00:02''
      (Inr (mcp_request (JInt 1) ''tools/call'' ''div'' [(''a'', JInt 1), (''b'', JInt 0)]))
      fresh_world))
   \<and> fst (handle_mcp demo_runtime ''2024-01-01T10:00:02''
      (Inl (PyExn ''JSONDecodeError'' ''Expecting value'')) fresh_world)
     = Reply 500 (error_body (- 32603) ''Expecting value'' JNull)
   \<and> fst (handle_mcp demo_runtime ''2024-01-01T10:00:02'' (Inr (JArr [])) fresh_world)
     = Unhandled (no_attribute (JArr [] :: rat json) ''get'')
   \<and> fst (handle_mcp demo_runtime ''2024-01-01T10:00:02'' (Inr null_arguments_request) fresh_world)
     = Reply 500 (error_body (- 32603)
         (quoted ''NoneType'' @ '' object has no attribute '' @ quoted ''get'') (JInt 1))
   \<and> fst (handle_mcp demo_runtime ''2024-01-01T10:00:02''
      (Inr (JObj [(''jsonrpc'', JStr ''2.0''), (''method'', JStr ''tools/list''), (''id'', JInt 2)]))
      fresh_world)
     = Reply 200 (JObj [(''jsonrpc'', JStr ''2.0''), (''result'', JObj [(''tools'', tools)]),
                        (''id'', JInt 2)])
   \<and> fst (handle_mcp demo_runtime ''2024-01-01T10:00:02''
      (Inr (JObj [(''jsonrpc'', JStr ''2.0''), (''method'', JStr ''resources/list''), (''id'', JInt 3)]))
      fresh_world)
     = Reply 400 (error_body (- 32601) ''Method not found: resources/list'' (JInt 3))
   \<and> fst (handle_mcp demo_runtime ''2024-01-01T10:00:02''
      (Inr (mcp_request (JInt 4) ''tools/call'' ''plus'' [(''a'', JInt 1)])) fresh_world)
     = Reply 400 (error_body (- 32602) ''Missing required parameters: a and b'' (JInt 4))
   \<and> fst (handle_mcp demo_runtime ''2024-01-01T10:00:02''
      (Inr (mcp_request (JInt 5) ''tools/call'' ''pow'' [(''a'', JInt 2), (''b'', JInt 3)]))
      fresh_world)
     = Reply 400 (error_body (- 32601) ''Unknown tool: pow'' (JInt 5))
   \<and> fst (handle_mcp demo_runtime ''2024-01-01T10:00:02''
      (Inr (mcp_request (JInt 6) ''tools/call'' ''div'' [(''a'', JInt 1), (''b'', JInt 0)]))
      fresh_world)
     = Reply 400 (error_body (- 32603) ''Division by zero is not allowed'' (JInt 6))
   \<and> reply_status (fst (handle_mcp demo_runtime ''2024-01-01T10:00:02''
      (Inr (mcp_request (JInt 7) ''tools/call'' ''plus'' [(''a'', JInt 5), (''b'', JInt 3)]))
      fresh_world)) = Some 200
   \<and> fst (handle_mcp demo_runtime ''2024-01-01T10:00:02''
      (Inr (mcp_request (JInt 8) ''tools/call'' ''div'' [(''a'', JInt (10 ^ 400)), (''b'', JInt 3)]))
      fresh_world)
     = Reply 500 (error_body (- 32603) ''integer division result too large for a float'' (JInt 8))"
proof -
  let ?now = "''2024-01-01T10:00:02''"
  let ?bad = "PyExn ''JSONDecodeError'' ''Expecting value''"
  let ?list = "JObj [(''jsonrpc'', JStr ''2.0''), (''method'', JStr ''tools/list''), (''id'', JInt 2)] :: rat json"
  let ?other = "JObj [(''jsonrpc'', JStr ''2.0''), (''method'', JStr ''resources/list''), (''id'', JInt 3)] :: rat json"
  let ?a1 = "[(''a'', JInt 1)] :: (string \<times> rat json) list"
  let ?a23 = "[(''a'', JInt 2), (''b'', JInt 3)] :: (string \<times> rat json) list"
  let ?a10 = "[(''a'', JInt 1), (''b'', JInt 0)] :: (string \<times> rat json) list"
  let ?a53 = "[(''a'', JInt 5), (''b'', JInt 3)] :: (string \<times> rat json) list"
  let ?big = "[(''a'', JInt (10 ^ 400)), (''b'', JInt 3)] :: (string \<times> rat json) list"
  have jedox: "reply_status (jedox_handle_mcp demo_runtime down_gateway (Inl ?bad)) = Some 200"
    by (rule mcp_statuses [where R = demo_runtime and G = down_gateway and jedox_request = "Inl ?bad",
          THEN conjunct1])
  have shape: "calculator_status (fst (handle_mcp demo_runtime ?now
      (Inr (mcp_request (JInt 1) ''tools/call'' ''div'' ?a10)) fresh_world))"
    by (rule mcp_statuses [where R = demo_runtime and now = ?now and w = fresh_world
          and request = "Inr (mcp_request (JInt 1) ''tools/call'' ''div'' ?a10)",
          THEN conjunct2, THEN conjunct1])
  have unparsed: "fst (handle_mcp demo_runtime ?now (Inl ?bad) fresh_world)
      = Reply 500 (error_body (- 32603) ''Expecting value'' JNull)"
    using mcp_statuses [where R = demo_runtime and now = ?now and w = fresh_world and e = ?bad,
          THEN conjunct2, THEN conjunct2, THEN conjunct1]
    by simp
  have no_object: "fst (handle_mcp demo_runtime ?now (Inr (JArr [])) fresh_world)
      = Unhandled (no_attribute (JArr [] :: rat json) ''get'')"
    using mcp_statuses [where R = demo_runtime and now = ?now and w = fresh_world
          and data = "JArr []" and e = "no_attribute (JArr [] :: rat json) ''get''",
          THEN conjunct2, THEN conjunct2, THEN conjunct2, THEN conjunct1]
    by (simp add: py_get_def)
  have c3: "tools_call null_arguments_request (JStr ''plus'') JNull"
    by (simp add: tools_call_def null_arguments_request_def py_get_def)
  have i3: "py_get null_arguments_request ''id'' JNull = Inr (JInt 1)"
    by (simp add: null_arguments_request_def py_get_def)
  have caught: "fst (handle_mcp demo_runtime ?now (Inr null_arguments_request) fresh_world)
      = Reply 500 (error_body (- 32603)
          (quoted ''NoneType'' @ '' object has no attribute '' @ quoted ''get'') (JInt 1))"
    using mcp_statuses [where R = demo_runtime and now = ?now and w = fresh_world
          and data = null_arguments_request and rid = "JInt 1" and tool_name = "JStr ''plus''"
          and arguments = JNull and e = "no_attribute (JNull :: rat json) ''get''",
          THEN conjunct2, THEN conjunct2, THEN conjunct2, THEN conjunct2, THEN conjunct2,
          THEN conjunct2, THEN conjunct2, THEN conjunct2, THEN conjunct1] c3 i3
    by (simp add: py_get_def no_attribute_def)
  have listing: "fst (handle_mcp demo_runtime ?now (Inr ?list) fresh_world)
      = Reply 200 (JObj [(''jsonrpc'', JStr ''2.0''), (''result'', JObj [(''tools'', tools)]),
                         (''id'', JInt 2)])"
    using mcp_statuses [where R = demo_runtime and now = ?now and w = fresh_world
          and data = ?list and rid = "JInt 2",
          THEN conjunct2, THEN conjunct2, THEN conjunct2, THEN conjunct2, THEN conjunct2,
          THEN conjunct2, THEN conjunct1]
    by (simp add: py_get_def)
  have unknown_method: "fst (handle_mcp demo_runtime ?now (Inr ?other) fresh_world)
      = Reply 400 (error_body (- 32601) ''Method not found: resources/list'' (JInt 3))"
    using mcp_statuses [where R = demo_runtime and now = ?now and w = fresh_world
          and data = ?other and rid = "JInt 3" and m = "JStr ''resources/list''",
          THEN conjunct2, THEN conjunct2, THEN conjunct2, THEN conjunct2, THEN conjunct2,
          THEN conjunct2, THEN conjunct2, THEN conjunct1]
    by (simp add: py_get_def py_str_def)
  have no_operand: "fst (handle_mcp demo_runtime ?now
        (Inr (mcp_request (JInt 4) ''tools/call'' ''plus'' ?a1)) fresh_world)
      = Reply 400 (error_body (- 32602) ''Missing required parameters: a and b'' (JInt 4))"
    using mcp_statuses [where R = demo_runtime and now = ?now and w = fresh_world
          and data = "mcp_request (JInt 4) ''tools/call'' ''plus'' ?a1" and rid = "JInt 4"
          and tool_name = "JStr ''plus''" and arguments = "JObj ?a1"
          and a = "JInt 1" and b = JNull,
          THEN conjunct2, THEN conjunct2, THEN conjunct2, THEN conjunct2, THEN conjunct2,
          THEN conjunct2, THEN conjunct2, THEN conjunct2, THEN conjunct2, THEN conjunct1]
      mcp_request_call [of "JInt 4" "''plus''" ?a1]
    by (simp add: operands_def py_get_def)
  have unknown_tool: "fst (handle_mcp demo_runtime ?now
        (Inr (mcp_request (JInt 5) ''tools/call'' ''pow'' ?a23)) fresh_world)
      = Reply 400 (error_body (- 32601) ''Unknown tool: pow'' (JInt 5))"
    using mcp_statuses [where R = demo_runtime and now = ?now and w = fresh_world
          and data = "mcp_request (JInt 5) ''tools/call'' ''pow'' ?a23" and rid = "JInt 5"
          and tool_name = "JStr ''pow''" and arguments = "JObj ?a23"
          and a = "JInt 2" and b = "JInt 3",
          THEN conjunct2, THEN conjunct2, THEN conjunct2, THEN conjunct2, THEN conjunct2,
          THEN conjunct2, THEN conjunct2, THEN conjunct2, THEN conjunct2, THEN conjunct2,
          THEN conjunct1]
      mcp_request_call [of "JInt 5" "''pow''" ?a23]
    by (simp add: operands_def py_get_def registered_def py_str_def)
  have zero: "fst (handle_mcp demo_runtime ?now
        (Inr (mcp_request (JInt 6) ''tools/call'' ''div'' ?a10)) fresh_world)
      = Reply 400 (error_body (- 32603) ''Division by zero is not allowed'' (JInt 6))"
    using mcp_statuses [where R = demo_runtime and now = ?now and w = fresh_world
          and data = "mcp_request (JInt 6) ''tools/call'' ''div'' ?a10" and rid = "JInt 6"
          and arguments = "JObj ?a10" and a = "JInt 1" and b = "JInt 0",
          THEN conjunct2, THEN conjunct2, THEN conjunct2, THEN conjunct2, THEN conjunct2,
          THEN conjunct2, THEN conjunct2, THEN conjunct2, THEN conjunct2, THEN conjunct2,
          THEN conjunct2, THEN conjunct1]
      mcp_request_call [of "JInt 6" "''div''" ?a10]
    by (simp add: operands_def py_get_def py_eq_zero_def)
  have p: "printable (JInt 5 :: rat json)" "printable (JInt 3 :: rat json)"
    "printable (JInt 8 :: rat json)"
    by (rule printable_int [of _ 1], simp, simp)+
  have sum: "py_binop demo_runtime Add (JInt 5) (JInt 3) = Inr (JInt 8)"
    by (simp add: py_binop_def num_of_def num_op_def int_op_def)
  have plus: "reply_status (fst (handle_mcp demo_runtime ?now
        (Inr (mcp_request (JInt 7) ''tools/call'' ''plus'' ?a53)) fresh_world)) = Some 200"
    using mcp_statuses [where R = demo_runtime and now = ?now and w = fresh_world
          and data = "mcp_request (JInt 7) ''tools/call'' ''plus'' ?a53" and rid = "JInt 7"
          and name = "''plus''" and arguments = "JObj ?a53" and a = "JInt 5" and b = "JInt 3"
          and op = Add and label = "''Addition''" and symbol = "''+''" and result = "JInt 8",
          THEN conjunct2, THEN conjunct2, THEN conjunct2, THEN conjunct2, THEN conjunct2,
          THEN conjunct2, THEN conjunct2, THEN conjunct2, THEN conjunct2, THEN conjunct2,
          THEN conjunct2, THEN conjunct2]
      mcp_request_call [of "JInt 7" "''plus''" ?a53] p sum
    by (simp add: operands_def py_get_def is_number_def arith_tool_def)
  have ops: "operands (JObj ?big) (JInt (10 ^ 400)) (JInt 3)"
    by (simp add: operands_def py_get_def)
  have nums: "is_number (JInt (10 ^ 400) :: rat json)" "is_number (JInt 3 :: rat json)"
    by (simp_all add: is_number_def)
  have dv: "arith_tool ''div'' = Some (TrueDiv, ''Division'', ''/'')"
    by (simp add: arith_tool_def)
  have nz: "TrueDiv = TrueDiv \<longrightarrow> \<not> py_eq_zero demo_runtime (JInt 3)"
    by (simp add: py_eq_zero_def)
  have overflow: "fst (handle_mcp demo_runtime ?now
        (Inr (mcp_request (JInt 8) ''tools/call'' ''div'' ?big)) fresh_world)
      = Reply 500 (error_body (- 32603) ''integer division result too large for a float'' (JInt 8))"
    using mcp_statuses [where R = demo_runtime and now = ?now and w = fresh_world
          and data = "mcp_request (JInt 8) ''tools/call'' ''div'' ?big" and rid = "JInt 8"
          and name = "''div''" and arguments = "JObj ?big" and a = "JInt (10 ^ 400)" and b = "JInt 3"
          and op = TrueDiv and label = "''Division''" and symbol = "''/''"
          and e = "PyExn ''OverflowError'' ''integer division result too large for a float''",
          THEN conjunct2, THEN conjunct2, THEN conjunct2, THEN conjunct2, THEN conjunct2,
          THEN conjunct2, THEN conjunct2, THEN conjunct2, THEN conjunct2, THEN conjunct2,
          THEN conjunct2, THEN conjunct2]
      mcp_request_call [of "JInt 8" "''div''" ?big] ops nums dv nz demo_division_overflow
    by (simp only: simp_thms exn_str.simps)
  from jedox shape unparsed no_object caught listing unknown_method no_operand unknown_tool
    zero plus overflow
  show ?thesis
    by (simp only: simp_thms)
qed

end
